theory Spec2Isabelle
  imports Main "HOL-Library.Sublist"
begin

section \<open>JavaScript string primitives\<close>

text \<open>
  Strings are lists of code units; the model covers the code units U+0000 to U+00FF, one
  \<^typ>\<open>char\<close> each. The regular expression \<^verbatim>\<open>/\s/\<close> matches, in that range, the
  characters TAB, LF, VT, FF, CR, SPACE and NO-BREAK SPACE; \<^verbatim>\<open>String.prototype.trim\<close>
  strips the same set.
\<close>

definition isSpace :: "char \<Rightarrow> bool" where
  "isSpace c \<longleftrightarrow>
     c \<in> set [CHR 0x09, CHR 0x0A, CHR 0x0B, CHR 0x0C, CHR 0x0D, CHR 0x20, CHR 0xA0]"

text \<open>\<^verbatim>\<open>text[i]\<close>: the code unit at index \<open>i\<close>, \<^verbatim>\<open>undefined\<close> (here \<open>None\<close>) out of range.\<close>

definition charAt :: "string \<Rightarrow> nat \<Rightarrow> char option" where
  "charAt text i = (if i < length text then Some (text ! i) else None)"

text \<open>
  \<^verbatim>\<open>/\s/.test(x)\<close> for \<open>x\<close> a code unit or \<^verbatim>\<open>undefined\<close>: the latter is converted to the
  string "undefined", which holds no whitespace.
\<close>

definition testSpace :: "char option \<Rightarrow> bool" where
  "testSpace x = (case x of None \<Rightarrow> False | Some c \<Rightarrow> isSpace c)"

text \<open>\<^verbatim>\<open>s.slice(a, b)\<close> for non-negative \<open>a\<close> and \<open>b\<close>.\<close>

definition slice :: "string \<Rightarrow> nat \<Rightarrow> nat \<Rightarrow> string" where
  "slice s a b = take (b - a) (drop a s)"

text \<open>\<^verbatim>\<open>xs.slice(-n)\<close>: the last \<open>n\<close> elements, all of them when there are fewer.\<close>

definition sliceLast :: "nat \<Rightarrow> 'a list \<Rightarrow> 'a list" where
  "sliceLast n xs = drop (length xs - n) xs"

definition upperCaseLetters :: string where
  "upperCaseLetters = ''ABCDEFGHIJKLMNOPQRSTUVWXYZ'' @
     [CHR 0xC0, CHR 0xC1, CHR 0xC2, CHR 0xC3, CHR 0xC4, CHR 0xC5, CHR 0xC6, CHR 0xC7,
      CHR 0xC8, CHR 0xC9, CHR 0xCA, CHR 0xCB, CHR 0xCC, CHR 0xCD, CHR 0xCE, CHR 0xCF,
      CHR 0xD0, CHR 0xD1, CHR 0xD2, CHR 0xD3, CHR 0xD4, CHR 0xD5, CHR 0xD6,
      CHR 0xD8, CHR 0xD9, CHR 0xDA, CHR 0xDB, CHR 0xDC, CHR 0xDD, CHR 0xDE]"

definition lowerCaseLetters :: string where
  "lowerCaseLetters = ''abcdefghijklmnopqrstuvwxyz'' @
     [CHR 0xE0, CHR 0xE1, CHR 0xE2, CHR 0xE3, CHR 0xE4, CHR 0xE5, CHR 0xE6, CHR 0xE7,
      CHR 0xE8, CHR 0xE9, CHR 0xEA, CHR 0xEB, CHR 0xEC, CHR 0xED, CHR 0xEE, CHR 0xEF,
      CHR 0xF0, CHR 0xF1, CHR 0xF2, CHR 0xF3, CHR 0xF4, CHR 0xF5, CHR 0xF6,
      CHR 0xF8, CHR 0xF9, CHR 0xFA, CHR 0xFB, CHR 0xFC, CHR 0xFD, CHR 0xFE]"

definition toLowerChar :: "char \<Rightarrow> char" where
  "toLowerChar c =
     (case map_of (zip upperCaseLetters lowerCaseLetters) c of Some l \<Rightarrow> l | None \<Rightarrow> c)"

definition toLowerCase :: "string \<Rightarrow> string" where
  "toLowerCase s = map toLowerChar s"

fun startsWith :: "string \<Rightarrow> string \<Rightarrow> bool" where
  "startsWith s [] = True"
| "startsWith [] (p # ps) = False"
| "startsWith (c # cs) (p # ps) = (c = p \<and> startsWith cs ps)"

text \<open>\<^verbatim>\<open>s.includes(sub)\<close>: \<open>sub\<close> occurs in \<open>s\<close> as a contiguous run.\<close>

fun jsIncludes :: "string \<Rightarrow> string \<Rightarrow> bool" where
  "jsIncludes [] sub = (sub = [])"
| "jsIncludes (c # cs) sub = (startsWith (c # cs) sub \<or> jsIncludes cs sub)"

definition trim :: "string \<Rightarrow> string" where
  "trim s = rev (dropWhile isSpace (rev (dropWhile isSpace s)))"

text \<open>\<^verbatim>\<open>s.replace(/\s+/g, '')\<close>\<close>

definition stripSpaces :: "string \<Rightarrow> string" where
  "stripSpaces s = filter (\<lambda>c. \<not> isSpace c) s"

section \<open>Mention detector (hooks/useMentions)\<close>

datatype MentionType = TUser | TAi

record MentionOption =
  o_id :: string
  o_name :: string
  o_type :: MentionType
  o_color :: "string option"

record MentionParticipant =
  p_id :: string
  p_name :: string
  p_color :: string

text \<open>
  The dropdown position is read from the DOM (\<^verbatim>\<open>calculateDropdownPosition\<close>); the model
  takes the computed position as an argument of type \<open>'pos\<close>.
\<close>

record 'pos MentionState =
  isOpen :: bool
  query :: string
  options :: "MentionOption list"
  selectedIndex :: nat
  position :: 'pos
  mentionStart :: int

definition getAllMentionOptions :: "MentionParticipant list \<Rightarrow> bool \<Rightarrow> MentionOption list" where
  "getAllMentionOptions participants isAIMuted =
     (if \<not> isAIMuted
      then [\<lparr>o_id = ''ai'', o_name = ''AI Assistant'', o_type = TAi, o_color = None\<rparr>]
      else []) @
     map (\<lambda>participant. \<lparr>o_id = p_id participant, o_name = p_name participant,
                          o_type = TUser, o_color = Some (p_color participant)\<rparr>) participants"

definition filterOptions :: "MentionParticipant list \<Rightarrow> bool \<Rightarrow> string \<Rightarrow> MentionOption list" where
  "filterOptions participants isAIMuted q =
     (let allOptions = getAllMentionOptions participants isAIMuted
      in if trim q = [] then allOptions
         else
           let lowerQuery = trim (toLowerCase q)
           in filter (\<lambda>option.
                let name = toLowerCase (o_name option);
                    nameNoSpaces = stripSpaces name
                in jsIncludes name lowerQuery \<or> jsIncludes nameNoSpaces lowerQuery \<or>
                   startsWith name lowerQuery \<or> startsWith nameNoSpaces lowerQuery) allOptions)"

text \<open>
  The backward scan of \<^verbatim>\<open>detectMention\<close>. \<open>scanMention text (Suc i)\<close> is the loop at
  index \<open>i\<close>; \<open>scanMention text 0\<close> is the loop's exit with \<^verbatim>\<open>mentionStart\<close> still \<open>-1\<close>.
\<close>

fun scanMention :: "string \<Rightarrow> nat \<Rightarrow> int" where
  "scanMention text 0 = - 1"
| "scanMention text (Suc i) =
     (if charAt text i = Some CHR ''@'' then
        (if i = 0 \<or> testSpace (charAt text (i - 1)) then int i
         else scanMention text i)
      else if testSpace (charAt text i) then - 1
      else scanMention text i)"

text \<open>
  \<^verbatim>\<open>detectMention(text, cursorPosition, textareaElement)\<close>: the new mention state, from
  the previous one. The cursor is the textarea's \<^verbatim>\<open>selectionStart\<close>, a non-negative
  integer.
\<close>

definition detectMention ::
  "MentionParticipant list \<Rightarrow> bool \<Rightarrow> 'pos \<Rightarrow> 'pos MentionState \<Rightarrow> string \<Rightarrow> nat
     \<Rightarrow> 'pos MentionState" where
  "detectMention participants isAIMuted pos prev text cursorPosition =
     (let start = scanMention text cursorPosition
      in if start = - 1 then prev\<lparr>isOpen := False\<rparr>
         else
           let q = slice text (nat (start + 1)) cursorPosition
           in if jsIncludes q '' '' then prev\<lparr>isOpen := False\<rparr>
              else \<lparr>isOpen = True, query = q,
                    options = filterOptions participants isAIMuted q,
                    selectedIndex = 0, position = pos, mentionStart = start\<rparr>)"

text \<open>The initial state of the hook.\<close>

definition initialMentionState :: "'pos \<Rightarrow> 'pos MentionState" where
  "initialMentionState pos =
     \<lparr>isOpen = False, query = [], options = [], selectedIndex = 0, position = pos,
      mentionStart = - 1\<rparr>"

section \<open>AI responder (services/klusterAI)\<close>

text \<open>
  A value that is thrown or that rejects a promise: an instance of \<^verbatim>\<open>Error\<close> with its
  message, or an object that is not one (the storage gateway's error objects, which
  carry a message as well).
\<close>

datatype Thrown = Error string | ErrorObject string

datatype Role = System | User | Assistant

record ChatCompletionMessageParam =
  cm_role :: Role
  cm_content :: string

text \<open>The sampling parameters are kept as the source writes them.\<close>

record CompletionRequest =
  model :: string
  max_tokens :: nat
  temperature :: string
  top_p :: "string option"
  messages :: "ChatCompletionMessageParam list"

record ResponseMessage =
  msg_content :: "string option"

record Choice =
  message :: "ResponseMessage option"

record Completion =
  choices :: "Choice list"

text \<open>
  The outcome of \<^verbatim>\<open>Promise.race([completionPromise, timeoutPromise])\<close>: the completion,
  or the rejection that came first. When the timer wins, the rejection is
  \<open>aiResponseTimeout\<close>.
\<close>

datatype RaceOutcome = Resolved Completion | Rejected Thrown

definition aiResponseTimeout :: Thrown where
  "aiResponseTimeout = Error ''AI response timeout''"

definition systemPrompt :: "string \<Rightarrow> string" where
  \<open>systemPrompt roomName =
     ''You are an AI assistant in ChatMind, a collaborative chat platform. You're participating in a room called "'' @ roomName @ ''".\<newline>\<newline>INSTRUCTIONS:\<newline>- Be helpful, collaborative, and concise (keep responses under 200 words)\<newline>- Stay focused on topics related to this room: "'' @ roomName @ ''"\<newline>- Use a friendly, professional tone\<newline>- Help facilitate productive discussions and decision-making\<newline>- When users mention @AI, respond directly to their request\<newline>- If asked about unrelated topics, politely redirect them back to the room's purpose\<newline>\<newline>Remember: You should focus on topics relevant to "'' @ roomName @ ''". Keep your responses concise and helpful.''\<close>

text \<open>The request \<^verbatim>\<open>generateResponse\<close> passes to \<^verbatim>\<open>client.chat.completions.create\<close>.\<close>

definition generateRequest :: "ChatCompletionMessageParam list \<Rightarrow> string \<Rightarrow> CompletionRequest" where
  "generateRequest msgs roomName =
     \<lparr>model = ''klusterai/Meta-Llama-3.1-8B-Instruct-Turbo'',
      max_tokens = 300,
      temperature = ''0.7'',
      top_p = Some ''1'',
      messages = \<lparr>cm_role = System, cm_content = systemPrompt roomName\<rparr> # sliceLast 5 msgs\<rparr>"

text \<open>\<^verbatim>\<open>completion.choices[0]?.message?.content\<close>\<close>

definition firstContent :: "Completion \<Rightarrow> string option" where
  "firstContent completion =
     (case choices completion of
        [] \<Rightarrow> None
      | choice # _ \<Rightarrow> (case message choice of None \<Rightarrow> None | Some m \<Rightarrow> msg_content m))"

text \<open>\<^verbatim>\<open>x || fallback\<close> for a string or \<^verbatim>\<open>null\<close>/\<^verbatim>\<open>undefined\<close>: the empty string is falsy.\<close>

definition orElse :: "string option \<Rightarrow> string \<Rightarrow> string" where
  "orElse x fallback = (case x of None \<Rightarrow> fallback | Some s \<Rightarrow> if s = [] then fallback else s)"

definition timeoutFallback :: string where
  "timeoutFallback = ''I'm taking a bit longer than usual to respond. Let me try to help you quickly - could you please rephrase your question?''"

definition networkFallback :: string where
  "networkFallback = ''I'm having network connectivity issues right now. Please try mentioning @AI again in a moment!''"

definition authFallback :: string where
  "authFallback = ''I'm having authentication issues with my AI service. Please try again later or contact support if this persists.''"

definition genericFallback :: string where
  "genericFallback = ''I'm having trouble connecting to my AI service right now. Please try mentioning @AI again in a moment, or feel free to continue your conversation - I'll be back soon!''"

definition emptyFallback :: string where
  "emptyFallback = ''I apologize, but I couldn't generate a response at this time.''"

text \<open>The body of the \<^verbatim>\<open>try\<close> block: \<open>Inl\<close> is a value thrown inside it.\<close>

definition generateResponse_try :: "RaceOutcome \<Rightarrow> Thrown + string" where
  "generateResponse_try outcome =
     (case outcome of
        Rejected e \<Rightarrow> Inl e
      | Resolved completion \<Rightarrow> Inr (orElse (firstContent completion) emptyFallback))"

text \<open>The \<^verbatim>\<open>catch\<close> block.\<close>

definition generateResponse_catch :: "Thrown \<Rightarrow> Thrown + string" where
  "generateResponse_catch e =
     (case e of
        Error msg \<Rightarrow>
          if msg = ''AI response timeout'' then Inr timeoutFallback
          else if jsIncludes msg ''fetch'' \<or> jsIncludes msg ''network'' then Inr networkFallback
          else if jsIncludes msg ''401'' then Inr authFallback
          else Inr genericFallback
      | ErrorObject _ \<Rightarrow> Inr genericFallback)"

text \<open>
  \<^verbatim>\<open>generateResponse(messages, roomName)\<close>. The completion endpoint, raced against the
  20 second timer, is the function \<open>endpoint\<close> from the request to the race's outcome.
\<close>

definition generateResponse ::
  "(CompletionRequest \<Rightarrow> RaceOutcome) \<Rightarrow> ChatCompletionMessageParam list \<Rightarrow> string
     \<Rightarrow> Thrown + string" where
  "generateResponse endpoint msgs roomName =
     (case generateResponse_try (endpoint (generateRequest msgs roomName)) of
        Inr response \<Rightarrow> Inr response
      | Inl e \<Rightarrow> generateResponse_catch e)"

definition testRequest :: CompletionRequest where
  "testRequest =
     \<lparr>model = ''klusterai/Meta-Llama-3.1-8B-Instruct-Turbo'',
      max_tokens = 50,
      temperature = ''0.7'',
      top_p = None,
      messages = [\<lparr>cm_role = User,
                    cm_content = ''Hello, can you respond with 'AI service is working'?''\<rparr>]\<rparr>"

text \<open>\<^verbatim>\<open>testConnection()\<close>: \<^verbatim>\<open>!!response\<close>, and \<^verbatim>\<open>false\<close> when anything is thrown.\<close>

definition testConnection :: "(CompletionRequest \<Rightarrow> RaceOutcome) \<Rightarrow> bool" where
  "testConnection endpoint =
     (case endpoint testRequest of
        Rejected _ \<Rightarrow> False
      | Resolved completion \<Rightarrow>
          (case firstContent completion of None \<Rightarrow> False | Some s \<Rightarrow> s \<noteq> []))"

section \<open>Room session state (contexts/ChatContext)\<close>

text \<open>Timestamps are integers: microseconds since the epoch, the storage's resolution.\<close>

type_synonym timestamp = int

record ReplyingTo =
  rt_userId :: string
  rt_userName :: string
  rt_content :: string

record ChatMessage =
  m_id :: string
  m_roomId :: string
  m_userId :: string
  m_userName :: string
  m_userColor :: string
  m_content :: string
  m_isAI :: bool
  m_timestamp :: timestamp
  m_replyingTo :: "ReplyingTo option"

record ChatUser =
  u_id :: string
  u_name :: string
  u_color :: string
  u_isOnline :: bool
  u_lastSeen :: "timestamp option"

record RoomSettings =
  s_roomId :: string
  s_isAIMuted :: bool
  s_aiMutedBy :: "string option"
  s_aiMutedByName :: "string option"
  s_aiMutedAt :: "timestamp option"

record ChatRoom =
  r_id :: string
  r_name :: string
  r_participants :: "ChatUser list"
  r_messages :: "ChatMessage list"
  r_settings :: RoomSettings
  r_createdAt :: timestamp

text \<open>The authenticated user of \<^verbatim>\<open>useAuth()\<close>.\<close>

record AuthUser =
  a_id :: string
  a_name :: string
  a_color :: string

subsection \<open>Storage gateway rows and replies\<close>

text \<open>
  The \<^verbatim>\<open>replying_to\<close> column as it reaches the client: absent, an object, or a text;
  for a text the value carries what \<^verbatim>\<open>JSON.parse\<close> makes of it (\<open>None\<close> when it throws).
\<close>

datatype ReplyPayload = NoReply | ReplyObject ReplyingTo | ReplyText "ReplyingTo option"

text \<open>A row of the table \<^verbatim>\<open>messages\<close>; the nullable columns are options.\<close>

record MessageRow =
  row_id :: string
  row_room_id :: string
  row_user_id :: "string option"
  row_user_name :: "string option"
  row_user_color :: "string option"
  row_content :: string
  row_is_ai :: "bool option"
  row_created_at :: timestamp
  row_replying_to :: ReplyPayload

text \<open>A row returned by \<^verbatim>\<open>get_room_participants_with_presence\<close>.\<close>

record PresenceRow =
  pr_user_id :: string
  pr_name :: "string option"
  pr_color :: "string option"
  pr_is_online :: "bool option"
  pr_last_seen :: "timestamp option"

record SettingsRow =
  sr_is_ai_muted :: "bool option"
  sr_ai_muted_by :: "string option"
  sr_ai_muted_by_name :: "string option"
  sr_ai_muted_at :: "timestamp option"

record RoomRow =
  rr_id :: string
  rr_name :: string
  rr_created_at :: timestamp

text \<open>
  The storage client resolves every request to \<^verbatim>\<open>{ data, error }\<close>; a failed request
  is a reply whose \<open>error\<close> is set.
\<close>

record 'a Reply =
  data :: "'a option"
  error :: "Thrown option"

definition errorMessage :: "Thrown \<Rightarrow> string" where
  "errorMessage e = (case e of Error msg \<Rightarrow> msg | ErrorObject msg \<Rightarrow> msg)"

subsection \<open>The provider's state\<close>

text \<open>The variables the closure of a \<^verbatim>\<open>sendMessage\<close> call keeps across its awaits.\<close>

record SendContext =
  c_tempId :: string
  c_roomId :: string
  c_roomName :: string
  c_isAIMuted :: bool
  c_content :: string

text \<open>
  The state and refs of \<^verbatim>\<open>ChatProvider\<close>. \<open>aiResponseTimeoutRef\<close> tells whether the ref
  holds a timer handle; \<open>subscriptions\<close> is the room the three channels and the presence
  interval are bound to; \<open>aiTurns\<close> are the AI turns scheduled with \<^verbatim>\<open>setTimeout\<close> that
  have not run yet.
\<close>

record ChatState =
  user :: "AuthUser option"
  supabaseConfigured :: bool
  currentRoom :: "ChatRoom option"
  currentRoomRef :: "ChatRoom option"
  rooms :: "ChatRoom list"
  isAIResponding :: bool
  aiResponseTimeoutRef :: bool
  pendingMessagesRef :: "string set"
  subscriptions :: "string option"
  aiTurns :: "SendContext list"

text \<open>\<^verbatim>\<open>const isAIMuted = currentRoom?.settings?.isAIMuted || false\<close>\<close>

definition isAIMuted :: "ChatState \<Rightarrow> bool" where
  "isAIMuted st = (case currentRoom st of None \<Rightarrow> False | Some room \<Rightarrow> s_isAIMuted (r_settings room))"

text \<open>
  \<^verbatim>\<open>setCurrentRoom(prevRoom => ...)\<close> with an updater that, when it changes the room, also
  stores the new room in \<^verbatim>\<open>currentRoomRef\<close>. \<open>f\<close> gives the updated room, or \<open>None\<close> where
  the updater returns \<^verbatim>\<open>prevRoom\<close> as it is.
\<close>

definition setCurrentRoom :: "(ChatRoom \<Rightarrow> ChatRoom option) \<Rightarrow> ChatState \<Rightarrow> ChatState" where
  "setCurrentRoom f st =
     (case currentRoom st of
        None \<Rightarrow> st
      | Some prevRoom \<Rightarrow>
          (case f prevRoom of
             None \<Rightarrow> st
           | Some updatedRoom \<Rightarrow>
               st\<lparr>currentRoom := Some updatedRoom, currentRoomRef := Some updatedRoom\<rparr>))"

subsection \<open>Loading\<close>

definition parseReplyingTo :: "ReplyPayload \<Rightarrow> ReplyingTo option" where
  "parseReplyingTo p =
     (case p of NoReply \<Rightarrow> None | ReplyObject r \<Rightarrow> Some r | ReplyText parsed \<Rightarrow> parsed)"

text \<open>The message built from a row, in \<^verbatim>\<open>loadRoomMessages\<close> and in the INSERT handler.\<close>

definition rowToMessage :: "MessageRow \<Rightarrow> ChatMessage" where
  "rowToMessage row =
     \<lparr>m_id = row_id row,
      m_roomId = row_room_id row,
      m_userId = orElse (row_user_id row) ''unknown'',
      m_userName = orElse (row_user_name row) ''Unknown User'',
      m_userColor = orElse (row_user_color row) ''#6B7280'',
      m_content = row_content row,
      m_isAI = (row_is_ai row = Some True),
      m_timestamp = row_created_at row,
      m_replyingTo = parseReplyingTo (row_replying_to row)\<rparr>"

definition loadRoomMessages :: "MessageRow list Reply \<Rightarrow> ChatMessage list" where
  "loadRoomMessages reply =
     (if error reply \<noteq> None then []
      else case data reply of None \<Rightarrow> [] | Some rows \<Rightarrow> map rowToMessage rows)"

definition loadParticipantsWithPresence :: "PresenceRow list Reply \<Rightarrow> ChatUser list" where
  "loadParticipantsWithPresence reply =
     (if error reply \<noteq> None then []
      else case data reply of
        None \<Rightarrow> []
      | Some participants \<Rightarrow>
          map (\<lambda>p. \<lparr>u_id = pr_user_id p,
                     u_name = orElse (pr_name p) ''Unknown User'',
                     u_color = orElse (pr_color p) ''#6B7280'',
                     u_isOnline = (pr_is_online p = Some True),
                     u_lastSeen = pr_last_seen p\<rparr>) participants)"

definition loadRoomSettings :: "string \<Rightarrow> SettingsRow list Reply \<Rightarrow> RoomSettings" where
  "loadRoomSettings roomId reply =
     (if error reply \<noteq> None then
        \<lparr>s_roomId = roomId, s_isAIMuted = False, s_aiMutedBy = None, s_aiMutedByName = None,
         s_aiMutedAt = None\<rparr>
      else case data reply of
        Some (settings # _) \<Rightarrow>
          \<lparr>s_roomId = roomId,
           s_isAIMuted = (sr_is_ai_muted settings = Some True),
           s_aiMutedBy = sr_ai_muted_by settings,
           s_aiMutedByName = sr_ai_muted_by_name settings,
           s_aiMutedAt = sr_ai_muted_at settings\<rparr>
      | _ \<Rightarrow>
          \<lparr>s_roomId = roomId, s_isAIMuted = False, s_aiMutedBy = None, s_aiMutedByName = None,
           s_aiMutedAt = None\<rparr>)"

subsection \<open>Reply target\<close>

text \<open>\<^verbatim>\<open>content.includes('@AI') || content.toLowerCase().includes('@ai')\<close>\<close>

definition mentionsAI :: "string \<Rightarrow> bool" where
  "mentionsAI content \<longleftrightarrow> jsIncludes content ''@AI'' \<or> jsIncludes (toLowerCase content) ''@ai''"

definition looksLikeQuestion :: "ChatMessage \<Rightarrow> bool" where
  "looksLikeQuestion msg \<longleftrightarrow>
     jsIncludes (m_content msg) ''?'' \<or>
     jsIncludes (toLowerCase (m_content msg)) ''how'' \<or>
     jsIncludes (toLowerCase (m_content msg)) ''what'' \<or>
     jsIncludes (toLowerCase (m_content msg)) ''why'' \<or>
     jsIncludes (toLowerCase (m_content msg)) ''when'' \<or>
     jsIncludes (toLowerCase (m_content msg)) ''where'' \<or>
     jsIncludes (toLowerCase (m_content msg)) ''can you'' \<or>
     jsIncludes (toLowerCase (m_content msg)) ''could you'' \<or>
     jsIncludes (toLowerCase (m_content msg)) ''help''"

text \<open>
  The first loop of \<^verbatim>\<open>findReplyTarget\<close>, over the messages from the last to the first:
  the argument list is the reversed history.
\<close>

fun scanReplyTarget :: "string \<Rightarrow> ChatMessage list \<Rightarrow> ChatMessage option" where
  "scanReplyTarget content [] = None"
| "scanReplyTarget content (msg # older) =
     (if m_isAI msg then scanReplyTarget content older
      else if mentionsAI content then Some msg
      else if looksLikeQuestion msg then Some msg
      else scanReplyTarget content older)"

definition findReplyTarget :: "string \<Rightarrow> ChatMessage list \<Rightarrow> ChatMessage option" where
  "findReplyTarget content recentMessages =
     (case scanReplyTarget content (rev recentMessages) of
        Some msg \<Rightarrow> Some msg
      | None \<Rightarrow> find (\<lambda>msg. \<not> m_isAI msg) (rev recentMessages))"

subsection \<open>Subscriptions and change events\<close>

definition cleanupSubscriptions :: "ChatState \<Rightarrow> ChatState" where
  "cleanupSubscriptions st = st\<lparr>subscriptions := None, aiResponseTimeoutRef := False\<rparr>"

definition setupRealtimeSubscriptions :: "string \<Rightarrow> ChatState \<Rightarrow> ChatState" where
  "setupRealtimeSubscriptions roomId st =
     (if \<not> supabaseConfigured st then st
      else (cleanupSubscriptions st)\<lparr>subscriptions := Some roomId\<rparr>)"

text \<open>Replacing the participants of the current room, when it is still the room \<open>roomId\<close>.\<close>

definition refreshParticipants :: "string \<Rightarrow> ChatUser list \<Rightarrow> ChatState \<Rightarrow> ChatState" where
  "refreshParticipants roomId updatedParticipants st =
     setCurrentRoom (\<lambda>prevRoom.
        if r_id prevRoom = roomId then Some (prevRoom\<lparr>r_participants := updatedParticipants\<rparr>)
        else None) st"

text \<open>
  The INSERT handler of the messages channel of room \<open>roomId\<close>, up to its await of the
  participants reload.
\<close>

definition onMessageInsert :: "string \<Rightarrow> MessageRow \<Rightarrow> ChatState \<Rightarrow> ChatState" where
  "onMessageInsert roomId payload st =
     (let newMessage = rowToMessage payload;
          st1 = (if m_isAI newMessage
                 then st\<lparr>isAIResponding := False, aiResponseTimeoutRef := False\<rparr>
                 else st);
          st2 = st1\<lparr>pendingMessagesRef := pendingMessagesRef st1 - {m_id newMessage}\<rparr>
      in setCurrentRoom (\<lambda>prevRoom.
           if r_id prevRoom = roomId then
             (if list_ex (\<lambda>m. m_id m = m_id newMessage) (r_messages prevRoom) then None
              else Some (prevRoom\<lparr>r_messages := r_messages prevRoom @ [newMessage]\<rparr>))
           else None) st2)"

text \<open>The whole handler: the message, then the reloaded participants.\<close>

definition onMessageInsertEvent ::
  "string \<Rightarrow> MessageRow \<Rightarrow> PresenceRow list Reply \<Rightarrow> ChatState \<Rightarrow> ChatState" where
  "onMessageInsertEvent roomId payload presence st =
     refreshParticipants roomId (loadParticipantsWithPresence presence)
       (onMessageInsert roomId payload st)"

definition onParticipantInsertEvent ::
  "string \<Rightarrow> PresenceRow list Reply \<Rightarrow> ChatState \<Rightarrow> ChatState" where
  "onParticipantInsertEvent roomId presence st =
     refreshParticipants roomId (loadParticipantsWithPresence presence) st"

definition onSettingsEvent :: "string \<Rightarrow> SettingsRow list Reply \<Rightarrow> ChatState \<Rightarrow> ChatState" where
  "onSettingsEvent roomId reply st =
     setCurrentRoom (\<lambda>prevRoom.
        if r_id prevRoom = roomId
        then Some (prevRoom\<lparr>r_settings := loadRoomSettings roomId reply\<rparr>)
        else None) st"

subsection \<open>sendMessage\<close>

text \<open>
  \<^verbatim>\<open>sendMessage(content)\<close> up to its await of the insert. \<open>tempId\<close> is the identifier made
  from \<^verbatim>\<open>Date.now()\<close> and \<^verbatim>\<open>Math.random()\<close>, \<open>now\<close> the clock. The result is \<open>None\<close> when the
  guard returns at once, else the closure's variables and the state with the optimistic
  message.
\<close>

definition sendMessage_begin ::
  "string \<Rightarrow> timestamp \<Rightarrow> string \<Rightarrow> ChatState \<Rightarrow> (SendContext \<times> ChatState) option" where
  "sendMessage_begin tempId now content st =
     (case (user st, currentRoom st) of
        (Some u, Some room) \<Rightarrow>
          if \<not> supabaseConfigured st then None
          else
            let st1 = st\<lparr>pendingMessagesRef := insert tempId (pendingMessagesRef st)\<rparr>;
                optimisticMessage =
                  \<lparr>m_id = tempId, m_roomId = r_id room, m_userId = a_id u,
                   m_userName = a_name u, m_userColor = a_color u, m_content = content,
                   m_isAI = False, m_timestamp = now, m_replyingTo = None\<rparr>;
                st2 = setCurrentRoom (\<lambda>prevRoom.
                        Some (prevRoom\<lparr>r_messages := r_messages prevRoom @ [optimisticMessage]\<rparr>))
                      st1
            in Some (\<lparr>c_tempId = tempId, c_roomId = r_id room, c_roomName = r_name room,
                      c_isAIMuted = isAIMuted st, c_content = content\<rparr>, st2)
      | _ \<Rightarrow> None)"

text \<open>
  The message built from the inserted row (the row carries the values that were sent, so
  its nullable columns are set; a null would be shown here as the empty string).
\<close>

definition realMessage :: "MessageRow \<Rightarrow> ChatMessage" where
  "realMessage d =
     \<lparr>m_id = row_id d,
      m_roomId = row_room_id d,
      m_userId = (case row_user_id d of None \<Rightarrow> [] | Some x \<Rightarrow> x),
      m_userName = (case row_user_name d of None \<Rightarrow> [] | Some x \<Rightarrow> x),
      m_userColor = (case row_user_color d of None \<Rightarrow> [] | Some x \<Rightarrow> x),
      m_content = row_content d,
      m_isAI = (row_is_ai d = Some True),
      m_timestamp = row_created_at d,
      m_replyingTo = None\<rparr>"

text \<open>
  \<^verbatim>\<open>sendMessage\<close> from the insert's reply on: what the call returns (\<open>Inl\<close> is the value it
  throws) and the state. An AI turn that is triggered is appended to \<open>aiTurns\<close>; it runs
  1.5 seconds later.
\<close>

definition sendMessage_finish ::
  "SendContext \<Rightarrow> MessageRow Reply \<Rightarrow> ChatState \<Rightarrow> (Thrown + unit) \<times> ChatState" where
  "sendMessage_finish ctx reply st =
     (case error reply of
        Some e \<Rightarrow>
          let st1 = st\<lparr>pendingMessagesRef := pendingMessagesRef st - {c_tempId ctx}\<rparr>;
              st2 = setCurrentRoom (\<lambda>prevRoom.
                      Some (prevRoom\<lparr>r_messages :=
                              filter (\<lambda>m. m_id m \<noteq> c_tempId ctx) (r_messages prevRoom)\<rparr>)) st1
          in (Inl e, st2)
      | None \<Rightarrow>
          let st1 =
                (case data reply of
                   None \<Rightarrow> st
                 | Some d \<Rightarrow>
                     setCurrentRoom (\<lambda>prevRoom.
                        Some (prevRoom\<lparr>r_messages :=
                                map (\<lambda>m. if m_id m = c_tempId ctx then realMessage d else m)
                                    (r_messages prevRoom)\<rparr>))
                       (st\<lparr>pendingMessagesRef := pendingMessagesRef st - {c_tempId ctx}\<rparr>))
          in if \<not> c_isAIMuted ctx \<and> mentionsAI (c_content ctx)
             then (Inr (), st1\<lparr>isAIResponding := True, aiResponseTimeoutRef := True,
                                aiTurns := aiTurns st1 @ [ctx]\<rparr>)
             else (Inr (), st1))"

text \<open>A call of \<^verbatim>\<open>sendMessage\<close> during which nothing else happens.\<close>

definition sendMessage ::
  "string \<Rightarrow> timestamp \<Rightarrow> string \<Rightarrow> MessageRow Reply \<Rightarrow> ChatState
     \<Rightarrow> (Thrown + unit) \<times> ChatState" where
  "sendMessage tempId now content reply st =
     (case sendMessage_begin tempId now content st of
        None \<Rightarrow> (Inr (), st)
      | Some (ctx, st1) \<Rightarrow> sendMessage_finish ctx reply st1)"

subsection \<open>The AI turn\<close>

text \<open>The requests an AI turn sends: to the completion endpoint and to the storage gateway.\<close>

datatype GatewayCall =
    ChatCompletion CompletionRequest
  | InsertAIMessage string string
  | InsertAIMessageWithReply string string "ReplyingTo option"

text \<open>
  What the world answers during an AI turn: whether the dynamic import of the service
  succeeds, the completion endpoint raced against the timers, and the error, if any, of
  \<^verbatim>\<open>insert_ai_message_with_reply\<close>.
\<close>

record AIEnvironment =
  ai_importOk :: bool
  ai_endpoint :: "CompletionRequest \<Rightarrow> RaceOutcome"
  ai_insertWithReplyError :: "Thrown option"

definition recentContext :: "ChatMessage list \<Rightarrow> ChatCompletionMessageParam list" where
  "recentContext msgs =
     map (\<lambda>m. \<lparr>cm_role = (if m_isAI m then Assistant else User),
                cm_content = m_userName m @ '': '' @ m_content m\<rparr>)
         (sliceLast 10 (filter (\<lambda>m. \<not> startsWith (m_id m) ''temp_'') msgs))"

definition replyExcerpt :: "ChatMessage \<Rightarrow> ReplyingTo" where
  "replyExcerpt replyTarget =
     \<lparr>rt_userId = m_userId replyTarget,
      rt_userName = m_userName replyTarget,
      rt_content = (if length (m_content replyTarget) > 50
                    then take 50 (m_content replyTarget) @ ''...''
                    else m_content replyTarget)\<rparr>"

definition probeFailedText :: string where
  "probeFailedText = ''I'm having trouble connecting to my AI service right now. Please try mentioning @AI again in a moment!''"

definition insertFailedText :: string where
  "insertFailedText = ''I'm having trouble responding right now. Please try mentioning @AI again!''"

definition turnFailedText :: string where
  "turnFailedText = ''I'm having trouble connecting right now. Please try mentioning @AI again in a moment!''"

text \<open>
  The callback that \<^verbatim>\<open>sendMessage\<close> schedules: the requests it sends, in order, and the
  state it leaves.
\<close>

definition aiTurn :: "SendContext \<Rightarrow> AIEnvironment \<Rightarrow> ChatState \<Rightarrow> GatewayCall list \<times> ChatState" where
  "aiTurn ctx env st =
     (let cleared = st\<lparr>isAIResponding := False, aiResponseTimeoutRef := False\<rparr>
      in if \<not> ai_importOk env then
           ([InsertAIMessage (c_roomId ctx) turnFailedText], cleared)
         else if \<not> testConnection (ai_endpoint env) then
           ([ChatCompletion testRequest, InsertAIMessage (c_roomId ctx) probeFailedText], cleared)
         else
           let currentMessages =
                 (case currentRoomRef st of None \<Rightarrow> [] | Some room \<Rightarrow> r_messages room);
               recentMessages = recentContext currentMessages
           in case generateResponse (ai_endpoint env) recentMessages (c_roomName ctx) of
                Inl e \<Rightarrow>
                  ([ChatCompletion testRequest,
                    ChatCompletion (generateRequest recentMessages (c_roomName ctx)),
                    InsertAIMessage (c_roomId ctx) turnFailedText], cleared)
              | Inr aiResponse \<Rightarrow>
                  let replyingToData =
                        map_option replyExcerpt (findReplyTarget (c_content ctx) currentMessages)
                  in ([ChatCompletion testRequest,
                       ChatCompletion (generateRequest recentMessages (c_roomName ctx)),
                       InsertAIMessageWithReply (c_roomId ctx) aiResponse replyingToData] @
                      (if ai_insertWithReplyError env \<noteq> None
                       then [InsertAIMessage (c_roomId ctx) insertFailedText] else []),
                      st))"

fun runTurns :: "AIEnvironment \<Rightarrow> SendContext list \<Rightarrow> ChatState \<Rightarrow> GatewayCall list \<times> ChatState" where
  "runTurns env [] st = ([], st)"
| "runTurns env (ctx # rest) st =
     (case aiTurn ctx env st of
        (calls, st1) \<Rightarrow> (case runTurns env rest st1 of (calls', st2) \<Rightarrow> (calls @ calls', st2)))"

text \<open>Running every AI turn that is scheduled.\<close>

definition runAITurns :: "AIEnvironment \<Rightarrow> ChatState \<Rightarrow> GatewayCall list \<times> ChatState" where
  "runAITurns env st = runTurns env (aiTurns st) (st\<lparr>aiTurns := []\<rparr>)"

subsection \<open>toggleAIMute, joinRoom, createRoom\<close>

datatype Console = ConsoleLog | ConsoleWarn | ConsoleError

text \<open>
  \<^verbatim>\<open>toggleAIMute()\<close>: what the call returns, the state, and the console levels it writes
  to from the guard on.
\<close>

definition toggleAIMute ::
  "SettingsRow list Reply \<Rightarrow> ChatState \<Rightarrow> (Thrown + unit) \<times> ChatState \<times> Console list" where
  "toggleAIMute reply st =
     (case (currentRoom st, user st) of
        (Some room, Some u) \<Rightarrow>
          if error reply \<noteq> None then (Inr (), st, [ConsoleLog, ConsoleError])
          else (Inr (), st, [ConsoleLog, ConsoleLog])
      | _ \<Rightarrow> (Inr (), st, [ConsoleWarn]))"

record JoinReplies =
  j_join :: "bool Reply"
  j_room :: "RoomRow Reply"
  j_participants :: "PresenceRow list Reply"
  j_settings :: "SettingsRow list Reply"
  j_messages :: "MessageRow list Reply"

definition notConfigured :: Thrown where
  "notConfigured = Error ''Supabase is not configured. Please check your environment variables.''"

definition joinRoom :: "string \<Rightarrow> JoinReplies \<Rightarrow> ChatState \<Rightarrow> (Thrown + bool) \<times> ChatState" where
  "joinRoom roomId replies st =
     (if \<not> supabaseConfigured st then (Inl notConfigured, st)
      else case user st of
        None \<Rightarrow> (Inr False, st)
      | Some u \<Rightarrow>
          if error (j_join replies) \<noteq> None \<or> data (j_join replies) \<noteq> Some True
          then (Inr False, st)
          else
            (case (error (j_room replies), data (j_room replies)) of
               (None, Some roomData) \<Rightarrow>
                 let room = \<lparr>r_id = rr_id roomData,
                             r_name = rr_name roomData,
                             r_participants = loadParticipantsWithPresence (j_participants replies),
                             r_messages = loadRoomMessages (j_messages replies),
                             r_settings = loadRoomSettings roomId (j_settings replies),
                             r_createdAt = rr_created_at roomData\<rparr>;
                     st1 = setupRealtimeSubscriptions roomId st;
                     st2 = st1\<lparr>currentRoom := Some room, currentRoomRef := Some room\<rparr>;
                     st3 = st2\<lparr>rooms :=
                             (if list_ex (\<lambda>r. r_id r = roomId) (rooms st2)
                              then map (\<lambda>r. if r_id r = roomId then room else r) (rooms st2)
                              else rooms st2 @ [room])\<rparr>
                 in (Inr True, st3)
             | _ \<Rightarrow> (Inr False, st)))"

definition createChatUser :: "AuthUser \<Rightarrow> ChatUser" where
  "createChatUser authUser =
     \<lparr>u_id = a_id authUser, u_name = a_name authUser, u_color = a_color authUser,
      u_isOnline = True, u_lastSeen = None\<rparr>"

text \<open>
  \<^verbatim>\<open>createRoom(roomName)\<close>; \<open>roomId\<close> is the identifier made from \<^verbatim>\<open>Date.now()\<close> and
  \<^verbatim>\<open>Math.random()\<close>, \<open>now\<close> the clock.
\<close>

definition createRoom ::
  "string \<Rightarrow> string \<Rightarrow> timestamp \<Rightarrow> bool Reply \<Rightarrow> ChatState \<Rightarrow> (Thrown + unit) \<times> ChatState" where
  "createRoom roomName roomId now reply st =
     (if \<not> supabaseConfigured st then (Inl notConfigured, st)
      else case user st of
        None \<Rightarrow> (Inl (Error ''User not authenticated''), st)
      | Some u \<Rightarrow>
          if error reply \<noteq> None \<or> data reply \<noteq> Some True
          then (Inl (Error (''Failed to create room: '' @
                  orElse (map_option errorMessage (error reply)) ''Unknown error'')), st)
          else
            let newRoom = \<lparr>r_id = roomId, r_name = roomName,
                            r_participants = [createChatUser u],
                            r_messages = [],
                            r_settings = \<lparr>s_roomId = roomId, s_isAIMuted = False,
                                          s_aiMutedBy = None, s_aiMutedByName = None,
                                          s_aiMutedAt = None\<rparr>,
                            r_createdAt = now\<rparr>;
                st1 = st\<lparr>rooms := rooms st @ [newRoom], currentRoom := Some newRoom,
                         currentRoomRef := Some newRoom\<rparr>
            in (Inr (), setupRealtimeSubscriptions roomId st1))"

section \<open>Presence (get\_room\_participants\_with\_presence)\<close>

record RoomParticipantRow =
  rp_room_id :: string
  rp_user_id :: string
  rp_joined_at :: "timestamp option"

record ProfileRow =
  pf_id :: string
  pf_name :: string
  pf_color :: "string option"

record Database =
  db_room_participants :: "RoomParticipantRow list"
  db_profiles :: "ProfileRow list"
  db_messages :: "MessageRow list"

text \<open>\<^verbatim>\<open>interval '10 minutes'\<close>, in microseconds.\<close>

definition tenMinutes :: int where
  "tenMinutes = 10 * 60 * 1000000"

text \<open>\<^verbatim>\<open>MAX(created_at)\<close> over a group of rows.\<close>

definition maxTimestamp :: "timestamp list \<Rightarrow> timestamp option" where
  "maxTimestamp ts = (case ts of [] \<Rightarrow> None | t # rest \<Rightarrow> Some (fold max rest t))"

text \<open>
  The subquery \<open>m\<close>, for the user \<open>uid\<close>: the latest \<^verbatim>\<open>created_at\<close> among the messages of the
  room with \<^verbatim>\<open>is_ai = false\<close> that the user wrote; \<open>None\<close> when the user has no such row.
\<close>

definition last_message_time :: "Database \<Rightarrow> string \<Rightarrow> string \<Rightarrow> timestamp option" where
  "last_message_time db p_room_id uid =
     maxTimestamp
       (map row_created_at
          (filter (\<lambda>msg. row_room_id msg = p_room_id \<and> row_is_ai msg = Some False \<and>
                          row_user_id msg = Some uid) (db_messages db)))"

text \<open>
  \<^verbatim>\<open>CASE WHEN m.last_message_time > now() - interval '10 minutes' THEN true ELSE
  false END\<close>; a comparison with NULL is not true.
\<close>

definition is_online :: "timestamp \<Rightarrow> timestamp option \<Rightarrow> bool" where
  "is_online now lastTime = (case lastTime of None \<Rightarrow> False | Some t \<Rightarrow> t > now - tenMinutes)"

text \<open>
  The rows the \<^verbatim>\<open>RETURN QUERY\<close> selects at the time \<open>now\<close>, with every name read as the
  table column of that name, before the \<^verbatim>\<open>ORDER BY\<close> (which permutes them: online first,
  then by \<^verbatim>\<open>last_seen\<close>).
\<close>

definition presence_query :: "timestamp \<Rightarrow> Database \<Rightarrow> string \<Rightarrow> PresenceRow list" where
  "presence_query now db p_room_id =
     concat (map (\<lambda>rp.
        map (\<lambda>p.
          let lastTime = last_message_time db p_room_id (rp_user_id rp)
          in \<lparr>pr_user_id = pf_id p,
              pr_name = Some (pf_name p),
              pr_color = pf_color p,
              pr_is_online = Some (is_online now lastTime),
              pr_last_seen = (case lastTime of Some t \<Rightarrow> Some t | None \<Rightarrow> rp_joined_at rp)\<rparr>)
          (filter (\<lambda>p. pf_id p = rp_user_id rp) (db_profiles db)))
        (filter (\<lambda>rp. rp_room_id rp = p_room_id) (db_room_participants db)))"

text \<open>
  The names that are PL/pgSQL variables inside the function: its parameter and the
  columns of its \<^verbatim>\<open>RETURNS TABLE\<close>.
\<close>

definition functionVariables :: "string list" where
  "functionVariables = [''p_room_id'', ''user_id'', ''name'', ''color'', ''is_online'', ''last_seen'']"

text \<open>The columns of the table \<^verbatim>\<open>messages\<close>, the only relation of the subquery \<open>m\<close>.\<close>

definition messagesColumns :: "string list" where
  "messagesColumns = [''id'', ''room_id'', ''user_id'', ''content'', ''is_ai'', ''created_at'',
     ''replying_to'', ''user_name'', ''user_color'']"

text \<open>
  The names the subquery \<open>m\<close> writes without a qualifier, in the order of the text:
  \<^verbatim>\<open>SELECT user_id, MAX(created_at) FROM messages WHERE room_id = p_room_id AND
  is_ai = false GROUP BY user_id\<close>.
\<close>

definition subqueryNames :: "string list" where
  "subqueryNames = [''user_id'', ''created_at'', ''room_id'', ''p_room_id'', ''is_ai'', ''user_id'']"

text \<open>
  The columns in the scope of the outer query (\<^verbatim>\<open>room_participants rp\<close>, \<^verbatim>\<open>profiles p\<close> and
  the subquery \<open>m\<close>) and the one name it writes without a qualifier, in
  \<^verbatim>\<open>WHERE rp.room_id = p_room_id\<close>.
\<close>

definition outerColumns :: "string list" where
  "outerColumns = [''room_id'', ''user_id'', ''joined_at'', ''id'', ''name'', ''color'',
     ''user_id'', ''last_message_time'']"

definition outerNames :: "string list" where
  "outerNames = [''p_room_id'']"

text \<open>
  PL/pgSQL's default \<^verbatim>\<open>variable_conflict = error\<close> (the function sets no other): a name
  without a qualifier that is both a variable of the function and a column of a relation
  in scope is refused. The result is the first such name.
\<close>

definition nameConflict :: "string list \<Rightarrow> string list \<Rightarrow> string option" where
  "nameConflict names columns =
     find (\<lambda>n. n \<in> set functionVariables \<and> n \<in> set columns) names"

text \<open>The error 42702 for the name \<open>n\<close>.\<close>

definition ambiguousColumn :: "string \<Rightarrow> Thrown" where
  \<open>ambiguousColumn n = ErrorObject (''column reference "'' @ n @ ''" is ambiguous'')\<close>

text \<open>
  \<^verbatim>\<open>get_room_participants_with_presence(p_room_id)\<close> at the time \<open>now\<close>: the error it raises
  (\<open>Inl\<close>), or its rows.
\<close>

definition get_room_participants_with_presence ::
  "timestamp \<Rightarrow> Database \<Rightarrow> string \<Rightarrow> Thrown + PresenceRow list" where
  "get_room_participants_with_presence now db p_room_id =
     (case nameConflict subqueryNames messagesColumns of
        Some n \<Rightarrow> Inl (ambiguousColumn n)
      | None \<Rightarrow>
          (case nameConflict outerNames outerColumns of
             Some n \<Rightarrow> Inl (ambiguousColumn n)
           | None \<Rightarrow> Inr (presence_query now db p_room_id)))"

text \<open>\<^verbatim>\<open>supabase.rpc(...)\<close>: what the function raises arrives as \<open>error\<close>, its rows as \<open>data\<close>.\<close>

definition rpc :: "Thrown + 'a \<Rightarrow> 'a Reply" where
  "rpc result =
     (case result of
        Inl e \<Rightarrow> \<lparr>data = None, error = Some e\<rparr>
      | Inr rows \<Rightarrow> \<lparr>data = Some rows, error = None\<rparr>)"

section \<open>Observations and example data\<close>

text \<open>The messages of the current room, as the user interface shows them.\<close>

definition currentMessages :: "ChatState \<Rightarrow> ChatMessage list" where
  "currentMessages st = (case currentRoom st of None \<Rightarrow> [] | Some room \<Rightarrow> r_messages room)"

definition hasId :: "string \<Rightarrow> ChatMessage list \<Rightarrow> bool" where
  "hasId i msgs = list_ex (\<lambda>m. m_id m = i) msgs"

definition countId :: "string \<Rightarrow> ChatMessage list \<Rightarrow> nat" where
  "countId i msgs = length (filter (\<lambda>m. m_id m = i) msgs)"

text \<open>
  A position \<open>i\<close> before the cursor at which a mention starts: an at-sign at index 0 or
  right after whitespace, with no whitespace from there to the cursor.
\<close>

definition triggerAt :: "string \<Rightarrow> nat \<Rightarrow> nat \<Rightarrow> bool" where
  "triggerAt text cursor i \<longleftrightarrow>
     i < cursor \<and> charAt text i = Some CHR ''@'' \<and>
     (i = 0 \<or> testSpace (charAt text (i - 1))) \<and>
     list_all (\<lambda>j. \<not> testSpace (charAt text j)) [Suc i ..< cursor]"

text \<open>The times of the messages a user wrote in a room, the AI's messages left out.\<close>

definition userMessageTimes :: "Database \<Rightarrow> string \<Rightarrow> string \<Rightarrow> timestamp set" where
  "userMessageTimes db roomId uid =
     row_created_at ` {msg \<in> set (db_messages db). row_room_id msg = roomId \<and>
        row_is_ai msg = Some False \<and> row_user_id msg = Some uid}"

definition userA :: AuthUser where
  "userA = \<lparr>a_id = ''userA'', a_name = ''userA'', a_color = ''#6E56CF''\<rparr>"

definition msgA :: ChatMessage where
  "msgA = \<lparr>m_id = ''m1'', m_roomId = ''room_1'', m_userId = ''userA'', m_userName = ''userA'',
           m_userColor = ''#6E56CF'', m_content = ''what's the plan?'', m_isAI = False,
           m_timestamp = 1, m_replyingTo = None\<rparr>"

definition msgB :: ChatMessage where
  "msgB = \<lparr>m_id = ''m2'', m_roomId = ''room_1'', m_userId = ''userB'', m_userName = ''userB'',
           m_userColor = ''#30A46C'', m_content = ''not sure'', m_isAI = False,
           m_timestamp = 2, m_replyingTo = None\<rparr>"

definition triggerRow :: MessageRow where
  "triggerRow = \<lparr>row_id = ''m3'', row_room_id = ''room_1'', row_user_id = Some ''userA'',
           row_user_name = Some ''userA'', row_user_color = Some ''#6E56CF'',
           row_content = ''@AI can you help?'', row_is_ai = Some False,
           row_created_at = 3, row_replying_to = NoReply\<rparr>"

definition msgTrigger :: ChatMessage where
  "msgTrigger = realMessage triggerRow"

definition exampleSettings :: "bool \<Rightarrow> RoomSettings" where
  "exampleSettings muted = \<lparr>s_roomId = ''room_1'', s_isAIMuted = muted, s_aiMutedBy = None,
           s_aiMutedByName = None, s_aiMutedAt = None\<rparr>"

definition exampleRoom :: "bool \<Rightarrow> ChatMessage list \<Rightarrow> ChatRoom" where
  "exampleRoom muted msgs = \<lparr>r_id = ''room_1'', r_name = ''Planning'', r_participants = [],
           r_messages = msgs, r_settings = exampleSettings muted, r_createdAt = 0\<rparr>"

definition exampleState :: "bool \<Rightarrow> ChatMessage list \<Rightarrow> ChatState" where
  "exampleState muted msgs =
     \<lparr>user = Some userA, supabaseConfigured = True,
      currentRoom = Some (exampleRoom muted msgs), currentRoomRef = Some (exampleRoom muted msgs),
      rooms = [exampleRoom muted msgs], isAIResponding = False, aiResponseTimeoutRef = False,
      pendingMessagesRef = {}, subscriptions = Some ''room_1'', aiTurns = []\<rparr>"

definition exampleContext :: SendContext where
  "exampleContext = \<lparr>c_tempId = ''temp_1'', c_roomId = ''room_1'', c_roomName = ''Planning'',
                    c_isAIMuted = False, c_content = ''@AI can you help?''\<rparr>"

definition exampleCompletion :: Completion where
  "exampleCompletion = \<lparr>choices = [\<lparr>message = Some \<lparr>msg_content = Some ''Happy to help.''\<rparr>\<rparr>]\<rparr>"

definition exampleEnvironment :: AIEnvironment where
  "exampleEnvironment = \<lparr>ai_importOk = True, ai_endpoint = (\<lambda>request. Resolved exampleCompletion),
      ai_insertWithReplyError = None\<rparr>"

definition exampleParam :: "nat \<Rightarrow> ChatCompletionMessageParam" where
  "exampleParam n = \<lparr>cm_role = User, cm_content = replicate n CHR ''x''\<rparr>"

text \<open>
  A room with two participants, read at the time \<open>1000000000\<close>: userA's last message is 10
  minutes and 1 second old, userB's is 9 minutes old, and the AI wrote a second ago.
\<close>

definition exampleNow :: timestamp where
  "exampleNow = 1000000000"

definition exampleDatabase :: Database where
  "exampleDatabase =
     \<lparr>db_room_participants =
        [\<lparr>rp_room_id = ''room_1'', rp_user_id = ''userA'', rp_joined_at = Some 0\<rparr>,
         \<lparr>rp_room_id = ''room_1'', rp_user_id = ''userB'', rp_joined_at = Some 0\<rparr>],
      db_profiles =
        [\<lparr>pf_id = ''userA'', pf_name = ''userA'', pf_color = Some ''#6E56CF''\<rparr>,
         \<lparr>pf_id = ''userB'', pf_name = ''userB'', pf_color = Some ''#30A46C''\<rparr>],
      db_messages =
        [\<lparr>row_id = ''m1'', row_room_id = ''room_1'', row_user_id = Some ''userA'',
          row_user_name = Some ''userA'', row_user_color = Some ''#6E56CF'',
          row_content = ''what's the plan?'', row_is_ai = Some False,
          row_created_at = exampleNow - tenMinutes - 1000000, row_replying_to = NoReply\<rparr>,
         \<lparr>row_id = ''m2'', row_room_id = ''room_1'', row_user_id = Some ''userB'',
          row_user_name = Some ''userB'', row_user_color = Some ''#30A46C'',
          row_content = ''not sure'', row_is_ai = Some False,
          row_created_at = exampleNow - 9 * 60 * 1000000, row_replying_to = NoReply\<rparr>,
         \<lparr>row_id = ''m4'', row_room_id = ''room_1'',
          row_user_id = Some ''00000000-0000-0000-0000-000000000000'',
          row_user_name = Some ''AI Assistant'', row_user_color = Some ''#8B5CF6'',
          row_content = ''Happy to help.'', row_is_ai = Some True,
          row_created_at = exampleNow - 1000000, row_replying_to = NoReply\<rparr>]\<rparr>"

definition presenceRowA :: PresenceRow where
  "presenceRowA = \<lparr>pr_user_id = ''userA'', pr_name = Some ''userA'', pr_color = Some ''#6E56CF'',
      pr_is_online = Some False, pr_last_seen = Some (exampleNow - tenMinutes - 1000000)\<rparr>"

definition presenceRowB :: PresenceRow where
  "presenceRowB = \<lparr>pr_user_id = ''userB'', pr_name = Some ''userB'', pr_color = Some ''#30A46C'',
      pr_is_online = Some True, pr_last_seen = Some (exampleNow - 9 * 60 * 1000000)\<rparr>"

text \<open>
  The two arrivals that follow one insert of \<^verbatim>\<open>sendMessage\<close>: the reply to the direct call
  and the INSERT event of the messages channel, both carrying the inserted row, in either
  order.
\<close>

datatype ArrivalOrder = ReplyFirst | EventFirst

definition sendAndDeliver ::
  "ArrivalOrder \<Rightarrow> string \<Rightarrow> timestamp \<Rightarrow> string \<Rightarrow> MessageRow \<Rightarrow> ChatState \<Rightarrow> ChatState" where
  "sendAndDeliver order tempId now content row st =
     (case sendMessage_begin tempId now content st of
        None \<Rightarrow> st
      | Some (ctx, st1) \<Rightarrow>
          (case order of
             ReplyFirst \<Rightarrow>
               onMessageInsert (c_roomId ctx) row
                 (snd (sendMessage_finish ctx \<lparr>data = Some row, error = None\<rparr> st1))
           | EventFirst \<Rightarrow>
               snd (sendMessage_finish ctx \<lparr>data = Some row, error = None\<rparr>
                 (onMessageInsert (c_roomId ctx) row st1))))"

definition helloRow :: MessageRow where
  "helloRow = \<lparr>row_id = ''m5'', row_room_id = ''room_1'', row_user_id = Some ''userA'',
           row_user_name = Some ''userA'', row_user_color = Some ''#6E56CF'',
           row_content = ''hello'', row_is_ai = Some False,
           row_created_at = 5, row_replying_to = NoReply\<rparr>"

definition insertFailed :: "MessageRow Reply" where
  "insertFailed = \<lparr>data = None, error = Some (ErrorObject ''new row violates row-level security policy'')\<rparr>"

definition toggleFailed :: "SettingsRow list Reply" where
  "toggleFailed = \<lparr>data = None, error = Some (ErrorObject ''User is not a participant in this room'')\<rparr>"

definition toggleDone :: "SettingsRow list Reply" where
  "toggleDone =
     \<lparr>data = Some [\<lparr>sr_is_ai_muted = Some True, sr_ai_muted_by = Some ''userA'',
                      sr_ai_muted_by_name = Some ''userA'', sr_ai_muted_at = Some 6\<rparr>],
      error = None\<rparr>"

definition joinRefused :: JoinReplies where
  "joinRefused =
     \<lparr>j_join = \<lparr>data = None, error = Some (ErrorObject ''Room does not exist'')\<rparr>,
      j_room = \<lparr>data = None, error = None\<rparr>,
      j_participants = \<lparr>data = None, error = None\<rparr>,
      j_settings = \<lparr>data = None, error = None\<rparr>,
      j_messages = \<lparr>data = None, error = None\<rparr>\<rparr>"

definition createRefused :: "bool Reply" where
  "createRefused = \<lparr>data = None, error = Some (ErrorObject ''User profile not found'')\<rparr>"

text \<open>A signed-in user with no room joined.\<close>

definition signedInState :: ChatState where
  "signedInState =
     \<lparr>user = Some userA, supabaseConfigured = True, currentRoom = None, currentRoomRef = None,
      rooms = [], isAIResponding = False, aiResponseTimeoutRef = False,
      pendingMessagesRef = {}, subscriptions = None, aiTurns = []\<rparr>"

text \<open>
  A join in which the membership call and the room lookup succeed and the three loads
  (participants, settings, messages) fail.
\<close>

definition joinLoadsFailed :: JoinReplies where
  "joinLoadsFailed =
     \<lparr>j_join = \<lparr>data = Some True, error = None\<rparr>,
      j_room = \<lparr>data = Some \<lparr>rr_id = ''room_1'', rr_name = ''Planning'', rr_created_at = 0\<rparr>,
                error = None\<rparr>,
      j_participants = \<lparr>data = None, error = Some (ambiguousColumn ''user_id'')\<rparr>,
      j_settings = \<lparr>data = None, error = Some (ErrorObject ''permission denied'')\<rparr>,
      j_messages = \<lparr>data = None, error = Some (ErrorObject ''permission denied'')\<rparr>\<rparr>"

section \<open>Properties of the string primitives\<close>

lemmas lower_simps = toLowerCase_def toLowerChar_def upperCaseLetters_def lowerCaseLetters_def

lemma startsWith_prefix: "startsWith s p \<longleftrightarrow> prefix p s"
  by (induction s p rule: startsWith.induct) auto

lemma jsIncludes_sublist: "jsIncludes s sub \<longleftrightarrow> sublist sub s"
  by (induction s) (auto simp: startsWith_prefix sublist_Cons_right)

lemma jsIncludes_single: "jsIncludes s [c] \<longleftrightarrow> c \<in> set s"
  by (induction s) auto

lemma sublist_toLowerCase: "sublist sub s \<Longrightarrow> sublist (toLowerCase sub) (toLowerCase s)"
  unfolding sublist_def toLowerCase_def by (metis map_append)

lemma slice_set: "c \<in> set (slice s a b) \<Longrightarrow> \<exists>j. a \<le> j \<and> j < b \<and> charAt s j = Some c"
  apply (simp add: slice_def charAt_def in_set_conv_nth)
  apply (erule exE)
  subgoal for k by (rule exI[of _ "a + k"]) auto
  done

lemma sliceLast_length: "length (sliceLast n xs) = min n (length xs)"
  by (simp add: sliceLast_def)

lemma sliceLast_all: "length xs \<le> n \<Longrightarrow> sliceLast n xs = xs"
  by (simp add: sliceLast_def)

section \<open>The mention detector\<close>

lemma at_not_space: "charAt s i = Some CHR ''@'' \<Longrightarrow> \<not> testSpace (charAt s i)"
  by (simp add: testSpace_def isSpace_def)

text \<open>The scan returns \<open>-1\<close> or the index of an at-sign that starts a mention.\<close>

lemma scan_sound:
  "scanMention s n = - 1 \<or>
   (\<exists>i<n. scanMention s n = int i \<and> charAt s i = Some CHR ''@'' \<and>
       (i = 0 \<or> testSpace (charAt s (i - 1))) \<and>
       (\<forall>j. i < j \<and> j < n \<longrightarrow> \<not> testSpace (charAt s j)))"
proof (induction n)
  case 0
  show ?case by simp
next
  case (Suc n)
  have step: "scanMention s (Suc n) = scanMention s n \<Longrightarrow> \<not> testSpace (charAt s n) \<Longrightarrow> ?case"
  proof -
    assume eq: "scanMention s (Suc n) = scanMention s n" and nosp: "\<not> testSpace (charAt s n)"
    from Suc show ?case
    proof
      assume "scanMention s n = - 1"
      with eq show ?thesis by simp
    next
      assume "\<exists>i<n. scanMention s n = int i \<and> charAt s i = Some CHR ''@'' \<and>
          (i = 0 \<or> testSpace (charAt s (i - 1))) \<and>
          (\<forall>j. i < j \<and> j < n \<longrightarrow> \<not> testSpace (charAt s j))"
      then obtain i where i: "i < n" "scanMention s n = int i" "charAt s i = Some CHR ''@''"
          "i = 0 \<or> testSpace (charAt s (i - 1))"
          "\<forall>j. i < j \<and> j < n \<longrightarrow> \<not> testSpace (charAt s j)" by blast
      have "\<forall>j. i < j \<and> j < Suc n \<longrightarrow> \<not> testSpace (charAt s j)"
        using i(5) nosp less_Suc_eq by auto
      with i eq show ?thesis by (intro disjI2 exI[of _ i]) simp
    qed
  qed
  show ?case
  proof (cases "charAt s n = Some CHR ''@''")
    case at: True
    show ?thesis
    proof (cases "n = 0 \<or> testSpace (charAt s (n - 1))")
      case True
      with at show ?thesis by auto
    next
      case False
      with at have "scanMention s (Suc n) = scanMention s n" by simp
      then show ?thesis using at_not_space [OF at] by (rule step)
    qed
  next
    case other: False
    show ?thesis
    proof (cases "testSpace (charAt s n)")
      case True
      with other show ?thesis by simp
    next
      case False
      with other have "scanMention s (Suc n) = scanMention s n" by simp
      then show ?thesis using False by (rule step)
    qed
  qed
qed

text \<open>Where a mention starts, the scan finds it.\<close>

lemma scan_complete:
  "i < n \<Longrightarrow> charAt s i = Some CHR ''@'' \<Longrightarrow> i = 0 \<or> testSpace (charAt s (i - 1)) \<Longrightarrow>
   (\<forall>j. i < j \<and> j < n \<longrightarrow> \<not> testSpace (charAt s j)) \<Longrightarrow> scanMention s n = int i"
proof (induction n)
  case 0
  then show ?case by simp
next
  case (Suc n)
  show ?case
  proof (cases "i = n")
    case True
    with Suc.prems show ?thesis by auto
  next
    case False
    with Suc.prems have lt: "i < n" by simp
    have nosp: "\<not> testSpace (charAt s n)" using Suc.prems(4) lt by simp
    have rest: "\<forall>j. i < j \<and> j < n \<longrightarrow> \<not> testSpace (charAt s j)" using Suc.prems(4) by simp
    have ih: "scanMention s n = int i" using Suc.IH[OF lt Suc.prems(2,3) rest] .
    have n1: "\<not> testSpace (charAt s (n - 1))"
    proof (cases "n - 1 = i")
      case True
      then show ?thesis using at_not_space[OF Suc.prems(2)] by simp
    next
      case False
      then show ?thesis using Suc.prems(4) lt by (simp add: less_Suc_eq)
    qed
    have "n \<noteq> 0" using lt by simp
    with nosp n1 ih show ?thesis by simp
  qed
qed

lemma slice_no_space:
  assumes "\<forall>j. i < j \<and> j < n \<longrightarrow> \<not> testSpace (charAt s j)"
  shows "\<not> jsIncludes (slice s (Suc i) n) '' ''"
proof
  assume "jsIncludes (slice s (Suc i) n) '' ''"
  then have "CHR '' '' \<in> set (slice s (Suc i) n)" by (simp add: jsIncludes_single)
  then obtain j where j: "Suc i \<le> j" "j < n" "charAt s j = Some CHR '' ''"
    using slice_set by blast
  then have "testSpace (charAt s j)" by (simp add: testSpace_def isSpace_def)
  moreover from j have "i < j \<and> j < n" by simp
  ultimately show False using assms by blast
qed

lemma triggerAt_iff:
  "triggerAt s cursor i \<longleftrightarrow>
     i < cursor \<and> charAt s i = Some CHR ''@'' \<and>
     (i = 0 \<or> testSpace (charAt s (i - 1))) \<and>
     (\<forall>j. i < j \<and> j < cursor \<longrightarrow> \<not> testSpace (charAt s j))"
  by (auto simp: triggerAt_def list_all_iff)

lemma detect_open:
  assumes "triggerAt s cursor i"
  shows "detectMention ps muted pos prev s cursor =
     \<lparr>isOpen = True, query = slice s (Suc i) cursor,
      options = filterOptions ps muted (slice s (Suc i) cursor),
      selectedIndex = 0, position = pos, mentionStart = int i\<rparr>"
proof -
  from assms have t: "i < cursor" "charAt s i = Some CHR ''@''"
    "i = 0 \<or> testSpace (charAt s (i - 1))"
    "\<forall>j. i < j \<and> j < cursor \<longrightarrow> \<not> testSpace (charAt s j)"
    by (simp_all add: triggerAt_iff)
  have found: "scanMention s cursor = int i" using scan_complete [OF t] .
  have n: "nat (int i + 1) = Suc i" by simp
  show ?thesis
    using slice_no_space [OF t(4)]
    by (simp add: detectMention_def found n Let_def)
qed

lemma detect_closed:
  assumes "\<not> (\<exists>i. triggerAt s cursor i)"
  shows "detectMention ps muted pos prev s cursor = prev\<lparr>isOpen := False\<rparr>"
proof -
  have "scanMention s cursor = - 1"
    using scan_sound [of s cursor] assms by (auto simp: triggerAt_iff)
  then show ?thesis by (simp add: detectMention_def)
qed

lemma trigger_example_1: "triggerAt ''hi @al'' 6 3"
  by (simp add: triggerAt_def charAt_def testSpace_def isSpace_def upt_rec numeral_eq_Suc nth_Cons')

lemma trigger_example_3: "triggerAt ''@AI please help'' 3 0"
  by (simp add: triggerAt_def charAt_def testSpace_def isSpace_def upt_rec numeral_eq_Suc nth_Cons')

text \<open>
  C5. Given a text and a cursor, \<open>detectMention\<close> opens the dropdown exactly when, scanning
  backward from the cursor, there is an at-sign at position 0 or right after whitespace
  with no whitespace between it and the cursor; the query is then the text between that
  at-sign and the cursor. For "hi @al" with the cursor at 6 the trigger is active with the
  query "al"; for "hi @al ice" with the cursor at 10 there is no active trigger; for
  "@AI please help" with the cursor at 3 the query is "AI".
\<close>

theorem C5_detectMention:
  "(isOpen (detectMention ps muted pos prev s cursor) \<longleftrightarrow> (\<exists>i. triggerAt s cursor i))
   \<and> (triggerAt s cursor i \<longrightarrow>
        query (detectMention ps muted pos prev s cursor) = slice s (Suc i) cursor \<and>
        mentionStart (detectMention ps muted pos prev s cursor) = int i)
   \<and> isOpen (detectMention ps muted pos prev ''hi @al'' 6)
   \<and> query (detectMention ps muted pos prev ''hi @al'' 6) = ''al''
   \<and> \<not> isOpen (detectMention ps muted pos prev ''hi @al ice'' 10)
   \<and> isOpen (detectMention ps muted pos prev ''@AI please help'' 3)
   \<and> query (detectMention ps muted pos prev ''@AI please help'' 3) = ''AI''"
proof -
  have a: "isOpen (detectMention ps muted pos prev s cursor) \<longleftrightarrow> (\<exists>i. triggerAt s cursor i)"
  proof (cases "\<exists>i. triggerAt s cursor i")
    case True
    then obtain i where "triggerAt s cursor i" ..
    from detect_open [OF this, of ps muted pos prev] True show ?thesis by simp
  next
    case False
    from detect_closed [OF this, of ps muted pos prev] False show ?thesis by simp
  qed
  have b: "triggerAt s cursor i \<longrightarrow>
        query (detectMention ps muted pos prev s cursor) = slice s (Suc i) cursor \<and>
        mentionStart (detectMention ps muted pos prev s cursor) = int i"
    by (simp add: detect_open)
  have s2: "scanMention ''hi @al ice'' 10 = - 1"
    by (simp add: numeral_eq_Suc charAt_def testSpace_def isSpace_def nth_Cons')
  have c: "isOpen (detectMention ps muted pos prev ''hi @al'' 6)"
    "query (detectMention ps muted pos prev ''hi @al'' 6) = ''al''"
    using detect_open [OF trigger_example_1, of ps muted pos prev]
    by (simp_all add: slice_def numeral_eq_Suc)
  have d: "\<not> isOpen (detectMention ps muted pos prev ''hi @al ice'' 10)"
    by (simp add: detectMention_def s2)
  have e: "isOpen (detectMention ps muted pos prev ''@AI please help'' 3)"
    "query (detectMention ps muted pos prev ''@AI please help'' 3) = ''AI''"
    using detect_open [OF trigger_example_3, of ps muted pos prev]
    by (simp_all add: slice_def numeral_eq_Suc)
  from a b c d e show ?thesis by blast
qed

theorem C5_detectMention_witness:
  "triggerAt ''hi @al'' 6 3 \<and>
   query (detectMention [] False () (initialMentionState ()) ''hi @al'' 6) = slice ''hi @al'' 4 6 \<and>
   mentionStart (detectMention [] False () (initialMentionState ()) ''hi @al'' 6) = 3"
  using trigger_example_1
    C5_detectMention [of "[]" False "()" "initialMentionState ()" "''hi @al''" 6 3]
  by simp

section \<open>The AI responder\<close>

lemma recentContext_length: "length (recentContext history) \<le> 10"
  by (simp add: recentContext_def sliceLast_length)

lemma generateRequest_messages:
  "messages (generateRequest msgs roomName) =
     \<lparr>cm_role = System, cm_content = systemPrompt roomName\<rparr> # sliceLast 5 msgs"
  by (simp add: generateRequest_def)

text \<open>
  C10. For every history passed to \<open>generateResponse\<close>, the request sent to the completion
  endpoint holds the system prompt followed by the last 5 entries of the history only
  (all of them when there are fewer than 5); the endpoint is consulted with that request
  and no other. The context the synchronizer builds has at most 10 entries, of which at
  most 5 reach the model.
\<close>

theorem C10_last_five:
  "messages (generateRequest msgs roomName) =
     \<lparr>cm_role = System, cm_content = systemPrompt roomName\<rparr> # drop (length msgs - 5) msgs
   \<and> length (messages (generateRequest msgs roomName)) = 1 + min 5 (length msgs)
   \<and> (length msgs < 5 \<longrightarrow> tl (messages (generateRequest msgs roomName)) = msgs)
   \<and> generateResponse endpoint msgs roomName =
       generateResponse (\<lambda>request. endpoint (generateRequest msgs roomName)) msgs roomName
   \<and> length (recentContext history) \<le> 10
   \<and> tl (messages (generateRequest (recentContext history) roomName)) =
       sliceLast 5 (recentContext history)
   \<and> length (tl (messages (generateRequest (recentContext history) roomName))) \<le> 5"
proof -
  have a: "messages (generateRequest msgs roomName) =
     \<lparr>cm_role = System, cm_content = systemPrompt roomName\<rparr> # drop (length msgs - 5) msgs"
    by (simp add: generateRequest_messages sliceLast_def)
  have b: "length (messages (generateRequest msgs roomName)) = 1 + min 5 (length msgs)"
    by (simp add: generateRequest_messages sliceLast_length)
  have c: "length msgs < 5 \<longrightarrow> tl (messages (generateRequest msgs roomName)) = msgs"
    by (simp add: generateRequest_messages sliceLast_all)
  have d: "generateResponse endpoint msgs roomName =
       generateResponse (\<lambda>request. endpoint (generateRequest msgs roomName)) msgs roomName"
    by (simp add: generateResponse_def)
  have e: "tl (messages (generateRequest (recentContext history) roomName)) =
       sliceLast 5 (recentContext history)"
    by (simp add: generateRequest_messages)
  have f: "length (tl (messages (generateRequest (recentContext history) roomName))) \<le> 5"
    by (simp add: generateRequest_messages sliceLast_length)
  from a b c d e f recentContext_length show ?thesis by blast
qed

theorem C10_last_five_witness:
  "length [exampleParam 1, exampleParam 2] < 5 \<and>
   tl (messages (generateRequest [exampleParam 1, exampleParam 2] ''Planning'')) =
     [exampleParam 1, exampleParam 2]"
  using C10_last_five [of "[exampleParam 1, exampleParam 2]" "''Planning''"]
  by simp

lemma fallbacks_nonempty:
  "timeoutFallback \<noteq> []" "networkFallback \<noteq> []" "authFallback \<noteq> []"
  "genericFallback \<noteq> []" "emptyFallback \<noteq> []"
  by (simp_all add: timeoutFallback_def networkFallback_def authFallback_def
      genericFallback_def emptyFallback_def)

lemma orElse_nonempty: "fallback \<noteq> [] \<Longrightarrow> orElse x fallback \<noteq> []"
  by (simp add: orElse_def split: option.splits)

lemma catch_cases:
  "generateResponse_catch e = Inr timeoutFallback \<or> generateResponse_catch e = Inr networkFallback \<or>
   generateResponse_catch e = Inr authFallback \<or> generateResponse_catch e = Inr genericFallback"
  by (simp add: generateResponse_catch_def split: Thrown.splits)

lemma generateResponse_total:
  "\<exists>response. generateResponse endpoint msgs roomName = Inr response \<and> response \<noteq> []"
proof (cases "endpoint (generateRequest msgs roomName)")
  case (Resolved completion)
  then show ?thesis
    by (simp add: generateResponse_def generateResponse_try_def orElse_nonempty fallbacks_nonempty)
next
  case (Rejected e)
  then have "generateResponse endpoint msgs roomName = generateResponse_catch e"
    by (simp add: generateResponse_def generateResponse_try_def)
  with catch_cases [of e] show ?thesis
    by (auto simp: fallbacks_nonempty)
qed

text \<open>
  C7. Whatever the history and whatever the completion endpoint does (a completion, the
  20 second timer's rejection, a network error, an authentication error, any other
  rejection), \<open>generateResponse\<close> returns a non-empty string and throws nothing. On a
  rejection the string is one of four canned texts, chosen by the kind of failure: the
  timeout text, the network text (message holding "fetch" or "network"), the
  authentication text (message holding "401"), the generic text otherwise.
\<close>

theorem C7_never_throws:
  "(\<exists>response. generateResponse endpoint msgs roomName = Inr response \<and> response \<noteq> [])
   \<and> (\<forall>e. endpoint (generateRequest msgs roomName) = Rejected e \<longrightarrow>
        generateResponse endpoint msgs roomName \<in>
          {Inr timeoutFallback, Inr networkFallback, Inr authFallback, Inr genericFallback})
   \<and> (endpoint (generateRequest msgs roomName) = Rejected aiResponseTimeout \<longrightarrow>
        generateResponse endpoint msgs roomName = Inr timeoutFallback)
   \<and> (\<forall>msg. endpoint (generateRequest msgs roomName) = Rejected (Error msg) \<and>
          msg \<noteq> ''AI response timeout'' \<and> (jsIncludes msg ''fetch'' \<or> jsIncludes msg ''network'') \<longrightarrow>
        generateResponse endpoint msgs roomName = Inr networkFallback)
   \<and> (\<forall>msg. endpoint (generateRequest msgs roomName) = Rejected (Error msg) \<and>
          msg \<noteq> ''AI response timeout'' \<and> \<not> jsIncludes msg ''fetch'' \<and> \<not> jsIncludes msg ''network'' \<and>
          jsIncludes msg ''401'' \<longrightarrow>
        generateResponse endpoint msgs roomName = Inr authFallback)
   \<and> (\<forall>msg. endpoint (generateRequest msgs roomName) = Rejected (Error msg) \<and>
          msg \<noteq> ''AI response timeout'' \<and> \<not> jsIncludes msg ''fetch'' \<and> \<not> jsIncludes msg ''network'' \<and>
          \<not> jsIncludes msg ''401'' \<longrightarrow>
        generateResponse endpoint msgs roomName = Inr genericFallback)
   \<and> (\<forall>msg. endpoint (generateRequest msgs roomName) = Rejected (ErrorObject msg) \<longrightarrow>
        generateResponse endpoint msgs roomName = Inr genericFallback)"
proof -
  have rej: "\<And>e. endpoint (generateRequest msgs roomName) = Rejected e \<Longrightarrow>
      generateResponse endpoint msgs roomName = generateResponse_catch e"
    by (simp add: generateResponse_def generateResponse_try_def)
  show ?thesis
    using generateResponse_total [of endpoint msgs roomName] catch_cases
    by (auto simp: rej generateResponse_catch_def aiResponseTimeout_def)
qed

theorem C7_never_throws_witness:
  "generateResponse (\<lambda>request. Rejected aiResponseTimeout) [] ''Planning'' = Inr timeoutFallback \<and>
   generateResponse (\<lambda>request. Rejected (Error ''Failed to fetch'')) [] ''Planning'' =
     Inr networkFallback \<and>
   generateResponse (\<lambda>request. Rejected (Error ''401 Unauthorized'')) [] ''Planning'' =
     Inr authFallback \<and>
   generateResponse (\<lambda>request. Rejected (Error ''500 Internal Server Error'')) [] ''Planning'' =
     Inr genericFallback \<and>
   generateResponse (\<lambda>request. Rejected (ErrorObject ''rate limited'')) [] ''Planning'' =
     Inr genericFallback"
  using C7_never_throws [of "\<lambda>request. Rejected aiResponseTimeout" "[]" "''Planning''"]
    C7_never_throws [of "\<lambda>request. Rejected (Error ''Failed to fetch'')" "[]" "''Planning''"]
    C7_never_throws [of "\<lambda>request. Rejected (Error ''401 Unauthorized'')" "[]" "''Planning''"]
    C7_never_throws [of "\<lambda>request. Rejected (Error ''500 Internal Server Error'')" "[]" "''Planning''"]
    C7_never_throws [of "\<lambda>request. Rejected (ErrorObject ''rate limited'')" "[]" "''Planning''"]
  by simp

section \<open>Presence\<close>

lemma fold_max_ge: "(t::int) \<le> fold max ts t"
  by (induction ts arbitrary: t) (auto intro: order_trans [OF max.cobounded2])

lemma fold_max_upper: "x \<in> set ts \<Longrightarrow> (x::int) \<le> fold max ts t"
proof (induction ts arbitrary: t)
  case Nil
  then show ?case by simp
next
  case (Cons a ts)
  show ?case
  proof (cases "x = a")
    case True
    have "a \<le> max a t" by simp
    also have "\<dots> \<le> fold max ts (max a t)" by (rule fold_max_ge)
    finally show ?thesis using True by simp
  next
    case False
    with Cons.prems have "x \<in> set ts" by simp
    then show ?thesis using Cons.IH by simp
  qed
qed

lemma fold_max_in: "fold max ts (t::int) \<in> insert t (set ts)"
  by (induction ts arbitrary: t) (auto simp: max_def)

text \<open>\<open>maxTimestamp\<close> is the greatest element of the list.\<close>

lemma maxTimestamp_Some:
  "maxTimestamp ts = Some t \<longleftrightarrow> t \<in> set ts \<and> (\<forall>x \<in> set ts. x \<le> t)"
proof (cases ts)
  case Nil
  then show ?thesis by (simp add: maxTimestamp_def)
next
  case (Cons a rest)
  have in_set: "fold max rest a \<in> set ts" using fold_max_in [of rest a] Cons by simp
  have upper: "\<forall>x \<in> set ts. x \<le> fold max rest a"
    using fold_max_upper [of _ rest a] fold_max_ge [of a rest] Cons by auto
  show ?thesis
  proof
    assume "maxTimestamp ts = Some t"
    then have "t = fold max rest a" using Cons by (simp add: maxTimestamp_def)
    with in_set upper show "t \<in> set ts \<and> (\<forall>x \<in> set ts. x \<le> t)" by simp
  next
    assume h: "t \<in> set ts \<and> (\<forall>x \<in> set ts. x \<le> t)"
    then have "fold max rest a \<le> t" using in_set by blast
    moreover have "t \<le> fold max rest a" using h upper by blast
    ultimately show "maxTimestamp ts = Some t" using Cons by (simp add: maxTimestamp_def)
  qed
qed

lemma last_message_time_Some:
  "last_message_time db roomId uid = Some t \<longleftrightarrow>
     t \<in> userMessageTimes db roomId uid \<and> (\<forall>x \<in> userMessageTimes db roomId uid. x \<le> t)"
  unfolding last_message_time_def maxTimestamp_Some userMessageTimes_def
  by auto

text \<open>What the query selects: the flag follows the 10 minute window, strictly.\<close>

lemma presence_query_online:
  "r \<in> set (presence_query now db roomId) \<Longrightarrow>
   pr_is_online r = Some (is_online now (last_message_time db roomId (pr_user_id r)))"
  by (auto simp: presence_query_def Let_def)

lemma is_online_window:
  "is_online now lastTime \<longleftrightarrow> (\<exists>t. lastTime = Some t \<and> now - t < tenMinutes)"
  by (auto simp: is_online_def split: option.splits)

lemma is_online_boundary:
  "is_online now (Some (now - tenMinutes - 1000000)) = False"
  "is_online now (Some (now - tenMinutes)) = False"
  "is_online now (Some (now - 9 * 60 * 1000000)) = True"
  "is_online now None = False"
  by (simp_all add: is_online_def tenMinutes_def)

lemma example_presence_rows:
  "presence_query exampleNow exampleDatabase ''room_1'' = [presenceRowA, presenceRowB]"
  by (simp add: presence_query_def exampleDatabase_def last_message_time_def
      maxTimestamp_def is_online_def presenceRowA_def presenceRowB_def exampleNow_def tenMinutes_def)

text \<open>The subquery's \<^verbatim>\<open>user_id\<close> is also a column of \<^verbatim>\<open>RETURNS TABLE\<close>.\<close>

lemma subquery_conflict: "nameConflict subqueryNames messagesColumns = Some ''user_id''"
  by (simp add: nameConflict_def subqueryNames_def messagesColumns_def functionVariables_def)

lemma presence_function_raises:
  "get_room_participants_with_presence now db roomId = Inl (ambiguousColumn ''user_id'')"
  by (simp add: get_room_participants_with_presence_def subquery_conflict)

text \<open>
  C6. The claim is that a participant is online exactly when the participant's most
  recent non-AI message in the room is less than 10 minutes old at the time of reading: a
  last message 10 minutes and 1 second old means offline, one that is 9 minutes old means
  online. The query of \<open>get_room_participants_with_presence\<close> is written to select just
  that, but the function never runs it: its subquery names \<open>user_id\<close> without a qualifier,
  which is a column of \<open>messages\<close> and a column of the function's \<open>RETURNS TABLE\<close>, so every
  call raises the error of an ambiguous column reference. The client turns the error into
  the empty list. In the example room the query would show userA (10 minutes and 1
  second) offline and userB (9 minutes) online; the client shows no participant at all,
  and nobody online.
\<close>

theorem C6_presence_function_raises:
  "get_room_participants_with_presence now db roomId = Inl (ambiguousColumn ''user_id'')
   \<and> loadParticipantsWithPresence (rpc (get_room_participants_with_presence now db roomId)) = []
   \<and> presence_query exampleNow exampleDatabase ''room_1'' = [presenceRowA, presenceRowB]
   \<and> pr_is_online presenceRowA = Some False
   \<and> pr_is_online presenceRowB = Some True
   \<and> filter u_isOnline (loadParticipantsWithPresence
        (rpc (get_room_participants_with_presence exampleNow exampleDatabase ''room_1''))) = []"
proof -
  have empty: "\<And>e. loadParticipantsWithPresence (rpc (Inl e)) = []"
    by (simp add: rpc_def loadParticipantsWithPresence_def)
  have flags: "pr_is_online presenceRowA = Some False" "pr_is_online presenceRowB = Some True"
    by (simp_all add: presenceRowA_def presenceRowB_def)
  show ?thesis
    using example_presence_rows flags
    by (simp add: presence_function_raises empty)
qed

section \<open>sendMessage\<close>

text \<open>
  C9. A call of \<open>sendMessage\<close> made when there is no current room or no authenticated user
  returns without throwing and leaves the whole state as it was: the current room, the
  list of rooms, the pending provisional messages and the AI sub-state.
\<close>

theorem C9_guard:
  "user st = None \<or> currentRoom st = None \<Longrightarrow>
   sendMessage tempId now content reply st = (Inr (), st)"
  by (auto simp: sendMessage_def sendMessage_begin_def split: option.splits)

theorem C9_guard_witness:
  "currentRoom ((exampleState False [msgA])\<lparr>currentRoom := None\<rparr>) = None \<and>
   sendMessage ''temp_1'' 3 ''hello'' \<lparr>data = Some triggerRow, error = None\<rparr>
     ((exampleState False [msgA])\<lparr>currentRoom := None\<rparr>) =
     (Inr (), (exampleState False [msgA])\<lparr>currentRoom := None\<rparr>) \<and>
   user ((exampleState False [msgA])\<lparr>user := None\<rparr>) = None \<and>
   sendMessage ''temp_1'' 3 ''hello'' \<lparr>data = Some triggerRow, error = None\<rparr>
     ((exampleState False [msgA])\<lparr>user := None\<rparr>) =
     (Inr (), (exampleState False [msgA])\<lparr>user := None\<rparr>)"
  using C9_guard [of "(exampleState False [msgA])\<lparr>currentRoom := None\<rparr>" "''temp_1''" 3 "''hello''"
      "\<lparr>data = Some triggerRow, error = None\<rparr>"]
    C9_guard [of "(exampleState False [msgA])\<lparr>user := None\<rparr>" "''temp_1''" 3 "''hello''"
      "\<lparr>data = Some triggerRow, error = None\<rparr>"]
  by simp

lemma filter_fresh: "\<not> hasId i msgs \<Longrightarrow> filter (\<lambda>m. m_id m \<noteq> i) msgs = msgs"
  by (induction msgs) (auto simp: hasId_def)

lemma not_hasId_filter: "\<not> hasId i (filter (\<lambda>m. m_id m \<noteq> i) msgs)"
  by (induction msgs) (auto simp: hasId_def)

lemma map_fresh: "\<not> hasId i msgs \<Longrightarrow> map (\<lambda>m. if m_id m = i then x else m) msgs = msgs"
  by (induction msgs) (auto simp: hasId_def)

lemma countId_fresh: "\<not> hasId i msgs \<Longrightarrow> countId i msgs = 0"
  by (induction msgs) (auto simp: hasId_def countId_def)

lemma countId_append: "countId i (xs @ ys) = countId i xs + countId i ys"
  by (simp add: countId_def)

text \<open>The state in which \<open>sendMessage\<close> awaits the insert.\<close>

lemma begin_Some:
  assumes "user st = Some u" "currentRoom st = Some room" "supabaseConfigured st"
  shows "sendMessage_begin tempId now content st =
     Some (\<lparr>c_tempId = tempId, c_roomId = r_id room, c_roomName = r_name room,
            c_isAIMuted = s_isAIMuted (r_settings room), c_content = content\<rparr>,
           st\<lparr>pendingMessagesRef := insert tempId (pendingMessagesRef st),
              currentRoom := Some (room\<lparr>r_messages := r_messages room @
                 [\<lparr>m_id = tempId, m_roomId = r_id room, m_userId = a_id u,
                   m_userName = a_name u, m_userColor = a_color u, m_content = content,
                   m_isAI = False, m_timestamp = now, m_replyingTo = None\<rparr>]\<rparr>),
              currentRoomRef := Some (room\<lparr>r_messages := r_messages room @
                 [\<lparr>m_id = tempId, m_roomId = r_id room, m_userId = a_id u,
                   m_userName = a_name u, m_userColor = a_color u, m_content = content,
                   m_isAI = False, m_timestamp = now, m_replyingTo = None\<rparr>]\<rparr>)\<rparr>)"
  using assms by (simp add: sendMessage_begin_def setCurrentRoom_def isAIMuted_def Let_def)

lemma example_user: "user (exampleState muted msgs) = Some userA"
  and example_room: "currentRoom (exampleState muted msgs) = Some (exampleRoom muted msgs)"
  and example_configured: "supabaseConfigured (exampleState muted msgs)"
  and example_messages: "currentMessages (exampleState muted msgs) = msgs"
  and example_turns: "aiTurns (exampleState muted msgs) = []"
  and example_muted: "s_isAIMuted (r_settings (exampleRoom muted msgs)) = muted"
  by (simp_all add: exampleState_def exampleRoom_def currentMessages_def exampleSettings_def)

lemma example_ids: "m_id msgA = ''m1''" "m_id msgB = ''m2''" "m_id msgTrigger = ''m3''"
  by (simp_all add: msgA_def msgB_def msgTrigger_def realMessage_def triggerRow_def)

text \<open>
  C3. When the insert of a \<open>sendMessage\<close> call fails, the call throws the gateway's error
  and the provisional message is removed from the messages of the current room: the
  final list holds no message with the provisional identifier and, that identifier being
  new when the call was made, equals the list before the call. No AI turn is scheduled.
\<close>

theorem C3_rollback:
  assumes "user st = Some u" and "currentRoom st = Some room" and "supabaseConfigured st"
    and "error reply = Some e"
  shows "fst (sendMessage tempId now content reply st) = Inl e
    \<and> currentMessages (snd (sendMessage tempId now content reply st)) =
        filter (\<lambda>m. m_id m \<noteq> tempId) (currentMessages st)
    \<and> \<not> hasId tempId (currentMessages (snd (sendMessage tempId now content reply st)))
    \<and> (\<not> hasId tempId (currentMessages st) \<longrightarrow>
          currentMessages (snd (sendMessage tempId now content reply st)) = currentMessages st
        \<and> currentRoom (snd (sendMessage tempId now content reply st)) = currentRoom st)
    \<and> tempId \<notin> pendingMessagesRef (snd (sendMessage tempId now content reply st))
    \<and> aiTurns (snd (sendMessage tempId now content reply st)) = aiTurns st
    \<and> isAIResponding (snd (sendMessage tempId now content reply st)) = isAIResponding st"
proof -
  let ?r = "sendMessage tempId now content reply st"
  have res: "fst ?r = Inl e"
    using assms by (simp add: sendMessage_def begin_Some sendMessage_finish_def Let_def)
  have msgs: "currentMessages (snd ?r) = filter (\<lambda>m. m_id m \<noteq> tempId) (currentMessages st)"
    using assms
    by (simp add: sendMessage_def begin_Some sendMessage_finish_def Let_def setCurrentRoom_def
        currentMessages_def)
  have room: "\<not> hasId tempId (currentMessages st) \<longrightarrow> currentRoom (snd ?r) = currentRoom st"
    using assms
    by (simp add: sendMessage_def begin_Some sendMessage_finish_def Let_def setCurrentRoom_def
        currentMessages_def filter_fresh)
  have rest: "tempId \<notin> pendingMessagesRef (snd ?r)" "aiTurns (snd ?r) = aiTurns st"
    "isAIResponding (snd ?r) = isAIResponding st"
    using assms
    by (simp_all add: sendMessage_def begin_Some sendMessage_finish_def Let_def setCurrentRoom_def)
  show ?thesis
    using res msgs room rest not_hasId_filter [of tempId "currentMessages st"]
      filter_fresh [of tempId "currentMessages st"]
    by simp
qed

theorem C3_rollback_witness:
  "user (exampleState False [msgA, msgB]) = Some userA \<and>
   currentRoom (exampleState False [msgA, msgB]) = Some (exampleRoom False [msgA, msgB]) \<and>
   supabaseConfigured (exampleState False [msgA, msgB]) \<and>
   error insertFailed = Some (ErrorObject ''new row violates row-level security policy'') \<and>
   \<not> hasId ''temp_1'' (currentMessages (exampleState False [msgA, msgB])) \<and>
   fst (sendMessage ''temp_1'' 5 ''hello'' insertFailed (exampleState False [msgA, msgB])) =
     Inl (ErrorObject ''new row violates row-level security policy'') \<and>
   currentMessages (snd (sendMessage ''temp_1'' 5 ''hello'' insertFailed
     (exampleState False [msgA, msgB]))) = [msgA, msgB]"
proof -
  have e: "error insertFailed = Some (ErrorObject ''new row violates row-level security policy'')"
    by (simp add: insertFailed_def)
  have fresh: "\<not> hasId ''temp_1'' (currentMessages (exampleState False [msgA, msgB]))"
    by (simp add: example_messages hasId_def example_ids)
  show ?thesis
    using C3_rollback [where st = "exampleState False [msgA, msgB]" and u = userA
        and room = "exampleRoom False [msgA, msgB]" and reply = insertFailed
        and e = "ErrorObject ''new row violates row-level security policy''"
        and tempId = "''temp_1''" and now = 5 and content = "''hello''"]
      fresh e example_user example_room example_configured example_messages
    by (simp add: example_ids)
qed


lemma mentions_example: "mentionsAI ''@AI can you help?''"
  by (simp add: mentionsAI_def)

lemma mentionsAI_iff: "mentionsAI content \<longleftrightarrow> sublist ''@ai'' (toLowerCase content)"
proof -
  have "toLowerCase ''@AI'' = ''@ai''" by (simp add: lower_simps)
  then have "sublist ''@AI'' content \<Longrightarrow> sublist ''@ai'' (toLowerCase content)"
    using sublist_toLowerCase [of "''@AI''" content] by simp
  then show ?thesis by (auto simp: mentionsAI_def jsIncludes_sublist)
qed

lemma scanReplyTarget_mention:
  "mentionsAI content \<Longrightarrow> scanReplyTarget content msgs = find (\<lambda>msg. \<not> m_isAI msg) msgs"
  by (induction msgs) auto

lemma findReplyTarget_mention:
  "mentionsAI content \<Longrightarrow>
   findReplyTarget content msgs = find (\<lambda>msg. \<not> m_isAI msg) (rev msgs)"
  by (simp add: findReplyTarget_def scanReplyTarget_mention split: option.splits)

lemma send_example_messages:
  "map_option r_messages (currentRoomRef (snd (sendMessage ''temp_1'' 3 ''@AI can you help?''
      \<lparr>data = Some triggerRow, error = None\<rparr> (exampleState False [msgA, msgB])))) =
   Some [msgA, msgB, msgTrigger]"
  by (simp add: sendMessage_def sendMessage_begin_def sendMessage_finish_def setCurrentRoom_def
      isAIMuted_def mentions_example exampleState_def exampleRoom_def exampleSettings_def
      msgTrigger_def userA_def msgA_def msgB_def)

lemma send_example_turns:
  "aiTurns (snd (sendMessage ''temp_1'' 3 ''@AI can you help?''
      \<lparr>data = Some triggerRow, error = None\<rparr> (exampleState False [msgA, msgB]))) =
   [exampleContext]"
  by (simp add: sendMessage_def sendMessage_begin_def sendMessage_finish_def setCurrentRoom_def
      isAIMuted_def mentions_example exampleState_def exampleRoom_def exampleSettings_def
      msgTrigger_def userA_def exampleContext_def)

lemma example_target: "findReplyTarget ''@AI can you help?'' [msgA, msgB, msgTrigger] = Some msgTrigger"
  by (simp add: findReplyTarget_mention mentions_example msgTrigger_def realMessage_def triggerRow_def)

lemma msgTrigger_not_msgB: "msgTrigger \<noteq> msgB"
  by (simp add: msgTrigger_def realMessage_def triggerRow_def msgB_def)

lemma example_probe: "testConnection (ai_endpoint exampleEnvironment)"
  by (simp add: testConnection_def exampleEnvironment_def exampleCompletion_def firstContent_def)

lemma example_generate:
  "generateResponse (ai_endpoint exampleEnvironment) msgs roomName = Inr ''Happy to help.''"
  by (simp add: generateResponse_def generateResponse_try_def exampleEnvironment_def
      exampleCompletion_def firstContent_def orElse_def)

lemma example_turn:
  "currentRoomRef st = Some (exampleRoom False [msgA, msgB, msgTrigger]) \<Longrightarrow>
   last (fst (aiTurn exampleContext exampleEnvironment st)) =
     InsertAIMessageWithReply ''room_1'' ''Happy to help.''
       (Some \<lparr>rt_userId = ''userA'', rt_userName = ''userA'', rt_content = ''@AI can you help?''\<rparr>)"
  apply (simp add: aiTurn_def example_probe example_generate Let_def)
  apply (simp add: exampleContext_def exampleRoom_def example_target exampleEnvironment_def)
  apply (simp add: replyExcerpt_def msgTrigger_def realMessage_def triggerRow_def)
  done


text \<open>
  The claim C2 says that, for the history [userA: "what's the plan?", userB: "not sure",
  userA: "@AI can you help?"] with the last message as the trigger, the reply target is
  userB's "not sure". On that list \<open>findReplyTarget\<close> returns the trigger itself; and a
  \<open>sendMessage\<close> of the trigger in a room holding the first two messages hands
  \<open>findReplyTarget\<close> the three messages, so the AI's message is stored as a reply to userA.
\<close>

theorem C2_counterexample:
  "findReplyTarget ''@AI can you help?'' [msgA, msgB, msgTrigger] \<noteq> Some msgB \<and>
   map_option r_messages (currentRoomRef (snd (sendMessage ''temp_1'' 3 ''@AI can you help?''
      \<lparr>data = Some triggerRow, error = None\<rparr> (exampleState False [msgA, msgB])))) =
     Some [msgA, msgB, msgTrigger] \<and>
   last (fst (runAITurns exampleEnvironment (snd (sendMessage ''temp_1'' 3 ''@AI can you help?''
      \<lparr>data = Some triggerRow, error = None\<rparr> (exampleState False [msgA, msgB]))))) \<noteq>
     InsertAIMessageWithReply ''room_1'' ''Happy to help.''
       (Some \<lparr>rt_userId = ''userB'', rt_userName = ''userB'', rt_content = ''not sure''\<rparr>)"
proof -
  let ?st = "snd (sendMessage ''temp_1'' 3 ''@AI can you help?''
      \<lparr>data = Some triggerRow, error = None\<rparr> (exampleState False [msgA, msgB]))"
  have ref: "currentRoomRef ?st = Some (exampleRoom False [msgA, msgB, msgTrigger])"
    by (simp add: sendMessage_def sendMessage_begin_def sendMessage_finish_def setCurrentRoom_def
      isAIMuted_def mentions_example exampleState_def exampleRoom_def exampleSettings_def
      msgTrigger_def userA_def msgA_def msgB_def)
  have run: "fst (runAITurns exampleEnvironment ?st) =
      fst (aiTurn exampleContext exampleEnvironment (?st\<lparr>aiTurns := []\<rparr>))"
    by (simp add: runAITurns_def send_example_turns split: prod.splits)
  have "last (fst (runAITurns exampleEnvironment ?st)) =
     InsertAIMessageWithReply ''room_1'' ''Happy to help.''
       (Some \<lparr>rt_userId = ''userA'', rt_userName = ''userA'', rt_content = ''@AI can you help?''\<rparr>)"
    unfolding run by (rule example_turn) (simp add: ref)
  then show ?thesis
    using example_target msgTrigger_not_msgB send_example_messages by simp
qed

text \<open>
  C2, amended. When the triggering content holds "@ai" in any letter case,
  \<open>findReplyTarget\<close> scans the messages it is given from the last to the first, skips the
  AI's messages and returns the most recent other message. The list \<open>sendMessage\<close> gives it
  is the room's current list, which holds the triggering message; so for the history
  [userA: "what's the plan?", userB: "not sure", userA: "@AI can you help?"] the target is
  userA's "@AI can you help?". Given only the two messages before the trigger, the target
  is userB's "not sure".
\<close>

theorem C2_reply_target:
  "(mentionsAI content \<longleftrightarrow> sublist ''@ai'' (toLowerCase content))
   \<and> (mentionsAI content \<longrightarrow>
        findReplyTarget content msgs = find (\<lambda>msg. \<not> m_isAI msg) (rev msgs))
   \<and> findReplyTarget ''@AI can you help?'' [msgA, msgB, msgTrigger] = Some msgTrigger
   \<and> m_userId msgTrigger = ''userA'' \<and> m_content msgTrigger = ''@AI can you help?''
   \<and> findReplyTarget ''@AI can you help?'' [msgA, msgB] = Some msgB"
proof -
  have "findReplyTarget ''@AI can you help?'' [msgA, msgB] = Some msgB"
    by (simp add: findReplyTarget_mention mentions_example msgB_def)
  moreover have "m_userId msgTrigger = ''userA'' \<and> m_content msgTrigger = ''@AI can you help?''"
    by (simp add: msgTrigger_def realMessage_def triggerRow_def)
  ultimately show ?thesis
    using mentionsAI_iff findReplyTarget_mention example_target by blast
qed

theorem C2_reply_target_witness:
  "mentionsAI ''@AI can you help?'' \<and>
   findReplyTarget ''@AI can you help?'' [msgA, msgB, msgTrigger] =
     find (\<lambda>msg. \<not> m_isAI msg) (rev [msgA, msgB, msgTrigger])"
  using C2_reply_target [of "''@AI can you help?''" "[msgA, msgB, msgTrigger]"] mentions_example
  by simp

section \<open>The AI turn trigger\<close>

lemma aiTurn_calls_nonempty: "fst (aiTurn ctx env st) \<noteq> []"
  by (simp add: aiTurn_def Let_def split: sum.splits)

lemma aiTurn_probe_first:
  "ai_importOk env \<Longrightarrow> hd (fst (aiTurn ctx env st)) = ChatCompletion testRequest"
  by (simp add: aiTurn_def Let_def split: sum.splits)

lemma runAITurns_none: "aiTurns st = [] \<Longrightarrow> fst (runAITurns env st) = []"
  by (simp add: runAITurns_def)

lemma runAITurns_one:
  "aiTurns st = [ctx] \<Longrightarrow> fst (runAITurns env st) = fst (aiTurn ctx env (st\<lparr>aiTurns := []\<rparr>))"
  by (simp add: runAITurns_def split: prod.splits)

text \<open>What a call whose insert succeeds returns and schedules.\<close>

lemma send_ok:
  assumes "user st = Some u" "currentRoom st = Some room" "supabaseConfigured st"
    and "error reply = None"
  shows "fst (sendMessage tempId now content reply st) = Inr ()"
    and "aiTurns (snd (sendMessage tempId now content reply st)) =
      aiTurns st @
        (if mentionsAI content \<and> \<not> s_isAIMuted (r_settings room)
         then [\<lparr>c_tempId = tempId, c_roomId = r_id room, c_roomName = r_name room,
                c_isAIMuted = False, c_content = content\<rparr>]
         else [])"
    and "isAIResponding (snd (sendMessage tempId now content reply st)) \<longleftrightarrow>
      (mentionsAI content \<and> \<not> s_isAIMuted (r_settings room)) \<or> isAIResponding st"
  using assms
  by (auto simp: sendMessage_def begin_Some sendMessage_finish_def Let_def setCurrentRoom_def
      split: option.splits)

text \<open>
  C4. A \<open>sendMessage\<close> call that passes its guard and whose insert succeeds returns
  normally, and schedules an AI turn exactly when the content holds "@ai" in any letter
  case and the AI of the room is not muted. With the mention present and the AI muted, or
  with no mention, nothing is scheduled: no request goes to the completion endpoint (no
  probe, no generation) and none to the gateway on the AI's behalf. When a turn is
  scheduled it sends requests, the probe being the first.
\<close>

theorem C4_ai_trigger:
  assumes "user st = Some u" and "currentRoom st = Some room" and "supabaseConfigured st"
    and "error reply = None"
  shows "fst (sendMessage tempId now content reply st) = Inr ()
    \<and> aiTurns (snd (sendMessage tempId now content reply st)) =
        aiTurns st @
          (if sublist ''@ai'' (toLowerCase content) \<and> \<not> s_isAIMuted (r_settings room)
           then [\<lparr>c_tempId = tempId, c_roomId = r_id room, c_roomName = r_name room,
                  c_isAIMuted = False, c_content = content\<rparr>]
           else [])
    \<and> (aiTurns (snd (sendMessage tempId now content reply st)) \<noteq> aiTurns st \<longleftrightarrow>
          sublist ''@ai'' (toLowerCase content) \<and> \<not> s_isAIMuted (r_settings room))
    \<and> (isAIResponding (snd (sendMessage tempId now content reply st)) \<longleftrightarrow>
          (sublist ''@ai'' (toLowerCase content) \<and> \<not> s_isAIMuted (r_settings room)) \<or>
          isAIResponding st)
    \<and> (aiTurns st = [] \<and> s_isAIMuted (r_settings room) \<longrightarrow>
          fst (runAITurns env (snd (sendMessage tempId now content reply st))) = [])
    \<and> (aiTurns st = [] \<and> \<not> sublist ''@ai'' (toLowerCase content) \<longrightarrow>
          fst (runAITurns env (snd (sendMessage tempId now content reply st))) = [])
    \<and> (aiTurns st = [] \<and> sublist ''@ai'' (toLowerCase content) \<and>
          \<not> s_isAIMuted (r_settings room) \<longrightarrow>
          fst (runAITurns env (snd (sendMessage tempId now content reply st))) \<noteq> [])
    \<and> (aiTurns st = [] \<and> sublist ''@ai'' (toLowerCase content) \<and>
          \<not> s_isAIMuted (r_settings room) \<and> ai_importOk env \<longrightarrow>
          hd (fst (runAITurns env (snd (sendMessage tempId now content reply st)))) =
            ChatCompletion testRequest)"
proof -
  let ?st' = "snd (sendMessage tempId now content reply st)"
  let ?trig = "sublist ''@ai'' (toLowerCase content) \<and> \<not> s_isAIMuted (r_settings room)"
  let ?ctx = "\<lparr>c_tempId = tempId, c_roomId = r_id room, c_roomName = r_name room,
                  c_isAIMuted = False, c_content = content\<rparr>"
  note ok = send_ok [OF assms, of tempId now content]
  have res: "fst (sendMessage tempId now content reply st) = Inr ()" by (rule ok(1))
  have turns: "aiTurns ?st' = aiTurns st @ (if ?trig then [?ctx] else [])"
    using ok(2) by (simp add: mentionsAI_iff)
  have responding: "isAIResponding ?st' \<longleftrightarrow> ?trig \<or> isAIResponding st"
    using ok(3) by (simp add: mentionsAI_iff)
  have changed: "aiTurns ?st' \<noteq> aiTurns st \<longleftrightarrow> ?trig"
    using turns by simp
  have quiet: "aiTurns st = [] \<and> \<not> ?trig \<longrightarrow> fst (runAITurns env ?st') = []"
    using turns by (simp add: runAITurns_none)
  have loud: "aiTurns st = [] \<and> ?trig \<longrightarrow>
      fst (runAITurns env ?st') = fst (aiTurn ?ctx env (?st'\<lparr>aiTurns := []\<rparr>))"
    using turns by (simp add: runAITurns_one)
  have loud1: "aiTurns st = [] \<and> ?trig \<longrightarrow> fst (runAITurns env ?st') \<noteq> []"
    using loud aiTurn_calls_nonempty by simp
  have loud2: "aiTurns st = [] \<and> ?trig \<and> ai_importOk env \<longrightarrow>
      hd (fst (runAITurns env ?st')) = ChatCompletion testRequest"
    using loud aiTurn_probe_first by simp
  from res turns responding changed quiet loud1 loud2 show ?thesis by blast
qed


lemma sublist_example: "sublist ''@ai'' (toLowerCase ''@AI hello'')"
  by (simp add: jsIncludes_sublist [symmetric] lower_simps)

lemma no_sublist_example: "\<not> sublist ''@ai'' (toLowerCase ''hello'')"
  by (simp add: jsIncludes_sublist [symmetric] lower_simps)

theorem C4_ai_trigger_witness:
  "user (exampleState True [msgA]) = Some userA \<and>
   currentRoom (exampleState True [msgA]) = Some (exampleRoom True [msgA]) \<and>
   supabaseConfigured (exampleState True [msgA]) \<and>
   error \<lparr>data = Some helloRow, error = None\<rparr> = None \<and>
   aiTurns (exampleState True [msgA]) = [] \<and>
   s_isAIMuted (r_settings (exampleRoom True [msgA])) \<and>
   sublist ''@ai'' (toLowerCase ''@AI hello'') \<and>
   fst (sendMessage ''temp_1'' 5 ''@AI hello'' \<lparr>data = Some helloRow, error = None\<rparr>
     (exampleState True [msgA])) = Inr () \<and>
   fst (runAITurns exampleEnvironment (snd (sendMessage ''temp_1'' 5 ''@AI hello''
     \<lparr>data = Some helloRow, error = None\<rparr> (exampleState True [msgA])))) = [] \<and>
   \<not> s_isAIMuted (r_settings (exampleRoom False [msgA])) \<and>
   ai_importOk exampleEnvironment \<and>
   hd (fst (runAITurns exampleEnvironment (snd (sendMessage ''temp_1'' 5 ''@AI hello''
     \<lparr>data = Some helloRow, error = None\<rparr> (exampleState False [msgA]))))) =
     ChatCompletion testRequest \<and>
   \<not> sublist ''@ai'' (toLowerCase ''hello'') \<and>
   fst (runAITurns exampleEnvironment (snd (sendMessage ''temp_1'' 5 ''hello''
     \<lparr>data = Some helloRow, error = None\<rparr> (exampleState False [msgA])))) = []"
proof -
  have imp: "ai_importOk exampleEnvironment" by (simp add: exampleEnvironment_def)
  show ?thesis
    using C4_ai_trigger [where st = "exampleState True [msgA]" and u = userA
        and room = "exampleRoom True [msgA]" and reply = "\<lparr>data = Some helloRow, error = None\<rparr>"
        and tempId = "''temp_1''" and now = 5 and content = "''@AI hello''"
        and env = exampleEnvironment]
      C4_ai_trigger [where st = "exampleState False [msgA]" and u = userA
        and room = "exampleRoom False [msgA]" and reply = "\<lparr>data = Some helloRow, error = None\<rparr>"
        and tempId = "''temp_1''" and now = 5 and content = "''@AI hello''"
        and env = exampleEnvironment]
      C4_ai_trigger [where st = "exampleState False [msgA]" and u = userA
        and room = "exampleRoom False [msgA]" and reply = "\<lparr>data = Some helloRow, error = None\<rparr>"
        and tempId = "''temp_1''" and now = 5 and content = "''hello''"
        and env = exampleEnvironment]
      imp sublist_example no_sublist_example
    by (simp add: example_user example_room example_configured example_turns example_muted)
qed

section \<open>Reconciliation and the INSERT event\<close>

lemma hasId_append: "hasId i (xs @ ys) \<longleftrightarrow> hasId i xs \<or> hasId i ys"
  by (simp add: hasId_def)

lemma realMessage_id: "m_id (realMessage row) = row_id row"
  and rowToMessage_id: "m_id (rowToMessage row) = row_id row"
  by (simp_all add: realMessage_def rowToMessage_def)

text \<open>The reply first: the provisional message becomes the durable one, and the event is dropped.\<close>

lemma reply_first:
  assumes "user st = Some u" "currentRoom st = Some room" "supabaseConfigured st"
    and "\<not> hasId tempId (r_messages room)"
  shows "currentMessages (sendAndDeliver ReplyFirst tempId now content row st) =
           r_messages room @ [realMessage row]"
  using assms
  by (simp add: sendAndDeliver_def begin_Some sendMessage_finish_def onMessageInsert_def Let_def
      setCurrentRoom_def currentMessages_def map_fresh realMessage_id rowToMessage_id
      list_ex_iff split: if_splits)

text \<open>
  The event first: the durable message is appended next to the provisional one, which the
  reply then turns into a second copy.
\<close>

lemma event_first:
  assumes "user st = Some u" "currentRoom st = Some room" "supabaseConfigured st"
    and "\<not> hasId tempId (r_messages room)" and "\<not> hasId (row_id row) (r_messages room)"
    and "row_id row \<noteq> tempId"
  shows "currentMessages (sendAndDeliver EventFirst tempId now content row st) =
           r_messages room @ [realMessage row, rowToMessage row]"
proof -
  have no: "\<not> list_ex (\<lambda>m. m_id m = row_id row) (r_messages room)"
    using assms(5) by (simp add: hasId_def)
  show ?thesis
    using assms no
    by (simp add: sendAndDeliver_def begin_Some sendMessage_finish_def onMessageInsert_def Let_def
      setCurrentRoom_def currentMessages_def map_fresh realMessage_id rowToMessage_id)
qed

text \<open>
  C1. The claim is that, in whichever order the reply to the direct call and the INSERT
  event of the same stored message arrive, the room ends with exactly one message of that
  durable identifier. The code keeps this when the reply arrives first. When the event
  arrives first, its duplicate check sees only the provisional message and appends the
  durable one; the reply then replaces the provisional message by the durable one without
  any check, and the room ends with two messages of the durable identifier.
\<close>

theorem C1_event_first_duplicates:
  assumes "user st = Some u" and "currentRoom st = Some room" and "supabaseConfigured st"
    and "\<not> hasId tempId (r_messages room)" and "\<not> hasId (row_id row) (r_messages room)"
    and "row_id row \<noteq> tempId"
  shows "countId (row_id row)
           (currentMessages (sendAndDeliver ReplyFirst tempId now content row st)) = 1
    \<and> countId (row_id row)
           (currentMessages (sendAndDeliver EventFirst tempId now content row st)) = 2
    \<and> currentMessages (sendAndDeliver EventFirst tempId now content row st) =
           r_messages room @ [realMessage row, rowToMessage row]"
  using reply_first [OF assms(1-4), of now content row] event_first [OF assms, of now content]
    countId_fresh [OF assms(5)]
  by (simp add: countId_append) (simp add: countId_def realMessage_id rowToMessage_id)

theorem C1_event_first_duplicates_witness:
  "user (exampleState False []) = Some userA \<and>
   currentRoom (exampleState False []) = Some (exampleRoom False []) \<and>
   supabaseConfigured (exampleState False []) \<and>
   \<not> hasId ''temp_1'' (r_messages (exampleRoom False [])) \<and>
   \<not> hasId (row_id helloRow) (r_messages (exampleRoom False [])) \<and>
   row_id helloRow \<noteq> ''temp_1'' \<and>
   map m_id (currentMessages (sendAndDeliver EventFirst ''temp_1'' 5 ''hello'' helloRow
     (exampleState False []))) = [''m5'', ''m5''] \<and>
   countId ''m5'' (currentMessages (sendAndDeliver EventFirst ''temp_1'' 5 ''hello'' helloRow
     (exampleState False []))) = 2"
proof -
  have r: "row_id helloRow = ''m5''" by (simp add: helloRow_def)
  have m: "r_messages (exampleRoom False []) = []" by (simp add: exampleRoom_def)
  show ?thesis
    using C1_event_first_duplicates [where st = "exampleState False []" and u = userA
        and room = "exampleRoom False []" and tempId = "''temp_1''" and row = helloRow
        and now = 5 and content = "''hello''"]
    by (simp add: example_user example_room example_configured r m hasId_def realMessage_id
        rowToMessage_id countId_def)
qed

section \<open>Failures of the synchronous calls\<close>

lemma joinRoom_failure:
  "supabaseConfigured st \<Longrightarrow>
   user st = None \<or> error (j_join replies) \<noteq> None \<or> data (j_join replies) \<noteq> Some True \<or>
     error (j_room replies) \<noteq> None \<or> data (j_room replies) = None \<Longrightarrow>
   joinRoom roomId replies st = (Inr False, st)"
  by (auto simp: joinRoom_def split: option.splits)

text \<open>
  Once the membership call and the room lookup have succeeded, \<open>joinRoom\<close> returns \<open>true\<close> and
  publishes the room with whatever the three loads gave.
\<close>

lemma joinRoom_published:
  assumes "supabaseConfigured st" "user st \<noteq> None" "error (j_join replies) = None"
    "data (j_join replies) = Some True" "error (j_room replies) = None"
    "data (j_room replies) = Some roomData"
  shows "fst (joinRoom roomId replies st) = Inr True"
    and "currentRoom (snd (joinRoom roomId replies st)) =
      Some \<lparr>r_id = rr_id roomData, r_name = rr_name roomData,
            r_participants = loadParticipantsWithPresence (j_participants replies),
            r_messages = loadRoomMessages (j_messages replies),
            r_settings = loadRoomSettings roomId (j_settings replies),
            r_createdAt = rr_created_at roomData\<rparr>"
  using assms by (auto simp: joinRoom_def Let_def split: option.splits)

text \<open>A load that fails gives its default.\<close>

lemma loads_swallow:
  "error loadedParticipants \<noteq> None \<Longrightarrow> loadParticipantsWithPresence loadedParticipants = []"
  "error loadedMessages \<noteq> None \<Longrightarrow> loadRoomMessages loadedMessages = []"
  "error loadedSettings \<noteq> None \<Longrightarrow>
   loadRoomSettings roomId loadedSettings =
     \<lparr>s_roomId = roomId, s_isAIMuted = False, s_aiMutedBy = None, s_aiMutedByName = None,
      s_aiMutedAt = None\<rparr>"
  by (simp_all add: loadParticipantsWithPresence_def loadRoomMessages_def loadRoomSettings_def)

lemma createRoom_failure:
  "\<not> supabaseConfigured st \<or> user st = None \<or> error reply \<noteq> None \<or> data reply \<noteq> Some True \<Longrightarrow>
   \<exists>e. createRoom roomName roomId now reply st = (Inl e, st)"
  by (auto simp: createRoom_def split: option.splits)

lemma createRoom_success:
  "supabaseConfigured st \<Longrightarrow> user st \<noteq> None \<Longrightarrow> error reply = None \<Longrightarrow>
   data reply = Some True \<Longrightarrow> fst (createRoom roomName roomId now reply st) = Inr ()"
  by (auto simp: createRoom_def Let_def split: option.splits)

lemma toggle_swallows:
  "fst (toggleAIMute reply st) = Inr ()" "fst (snd (toggleAIMute reply st)) = st"
  "ConsoleError \<in> set (snd (snd (toggleAIMute reply st))) \<longleftrightarrow>
     currentRoom st \<noteq> None \<and> user st \<noteq> None \<and> error reply \<noteq> None"
  by (auto simp: toggleAIMute_def split: option.splits)

lemma signedIn_facts:
  "supabaseConfigured signedInState" "user signedInState = Some userA"
  "currentRoom signedInState = None"
  by (simp_all add: signedInState_def)

lemma joinLoadsFailed_facts:
  "error (j_join joinLoadsFailed) = None" "data (j_join joinLoadsFailed) = Some True"
  "error (j_room joinLoadsFailed) = None"
  "data (j_room joinLoadsFailed) =
     Some \<lparr>rr_id = ''room_1'', rr_name = ''Planning'', rr_created_at = 0\<rparr>"
  "error (j_participants joinLoadsFailed) \<noteq> None" "error (j_settings joinLoadsFailed) \<noteq> None"
  "error (j_messages joinLoadsFailed) \<noteq> None"
  by (simp_all add: joinLoadsFailed_def)

text \<open>
  The claim C8 says that every failure of \<open>toggleAIMute\<close> and of \<open>joinRoom\<close> reaches the
  caller. A toggle that the gateway refuses returns exactly what a toggle that succeeds
  returns, and leaves the state as it was. A join whose loads of the participants, the
  settings and the messages all fail returns \<open>true\<close> and publishes the room with no
  participant, no message and the AI unmuted.
\<close>

theorem C8_counterexample:
  "error toggleFailed \<noteq> None \<and>
   user (exampleState False [msgA]) \<noteq> None \<and> currentRoom (exampleState False [msgA]) \<noteq> None \<and>
   fst (toggleAIMute toggleFailed (exampleState False [msgA])) = Inr () \<and>
   fst (toggleAIMute toggleFailed (exampleState False [msgA])) =
     fst (toggleAIMute toggleDone (exampleState False [msgA])) \<and>
   fst (snd (toggleAIMute toggleFailed (exampleState False [msgA]))) = exampleState False [msgA] \<and>
   error (j_participants joinLoadsFailed) \<noteq> None \<and>
   error (j_settings joinLoadsFailed) \<noteq> None \<and>
   error (j_messages joinLoadsFailed) \<noteq> None \<and>
   fst (joinRoom ''room_1'' joinLoadsFailed signedInState) = Inr True \<and>
   currentRoom (snd (joinRoom ''room_1'' joinLoadsFailed signedInState)) =
     Some (exampleRoom False [])"
proof -
  have toggle: "fst (toggleAIMute toggleFailed (exampleState False [msgA])) = Inr ()"
    "fst (toggleAIMute toggleFailed (exampleState False [msgA])) =
     fst (toggleAIMute toggleDone (exampleState False [msgA]))"
    "fst (snd (toggleAIMute toggleFailed (exampleState False [msgA]))) = exampleState False [msgA]"
    "error toggleFailed \<noteq> None"
    by (simp_all add: toggleAIMute_def toggleFailed_def toggleDone_def example_user example_room)
  have u: "user signedInState \<noteq> None" by (simp add: signedIn_facts)
  note join = joinRoom_published [OF signedIn_facts(1) u joinLoadsFailed_facts(1-4),
      of "''room_1''"]
  have room: "currentRoom (snd (joinRoom ''room_1'' joinLoadsFailed signedInState)) =
     Some (exampleRoom False [])"
    unfolding join(2)
    by (simp add: loads_swallow joinLoadsFailed_facts exampleRoom_def exampleSettings_def)
  show ?thesis
    using toggle join(1) room joinLoadsFailed_facts
    by (simp add: example_user example_room)
qed

text \<open>
  C8, amended. These failures reach the caller: of \<open>joinRoom\<close>, a missing user, a failed or
  refused membership call and a failed or empty room lookup, as the result \<open>false\<close>, and a
  storage that is not configured, as an exception; of \<open>createRoom\<close>, every failure, as an
  exception; of \<open>sendMessage\<close>, a failed insert, as the exception carrying the gateway's
  error. In each case the state is the one before the call, or (for \<open>sendMessage\<close>) the one
  with the provisional message removed. These failures do not reach the caller: a
  failure of \<open>toggleAIMute\<close>, which writes the error to the console and returns normally
  with the state unchanged; and, inside \<open>joinRoom\<close>, a failed load of the participants, of
  the settings or of the messages, which is replaced by the empty list, the unmuted
  default settings or the empty list, while \<open>joinRoom\<close> returns \<open>true\<close> and publishes the room
  with those values.
\<close>

theorem C8_failures:
  "(\<not> supabaseConfigured st \<longrightarrow> joinRoom roomId replies st = (Inl notConfigured, st))
   \<and> (supabaseConfigured st \<and>
        (user st = None \<or> error (j_join replies) \<noteq> None \<or> data (j_join replies) \<noteq> Some True \<or>
         error (j_room replies) \<noteq> None \<or> data (j_room replies) = None) \<longrightarrow>
        joinRoom roomId replies st = (Inr False, st))
   \<and> (supabaseConfigured st \<and> user st \<noteq> None \<and> error (j_join replies) = None \<and>
        data (j_join replies) = Some True \<and> error (j_room replies) = None \<and>
        data (j_room replies) = Some roomData \<longrightarrow>
        fst (joinRoom roomId replies st) = Inr True \<and>
        currentRoom (snd (joinRoom roomId replies st)) =
          Some \<lparr>r_id = rr_id roomData, r_name = rr_name roomData,
                r_participants = loadParticipantsWithPresence (j_participants replies),
                r_messages = loadRoomMessages (j_messages replies),
                r_settings = loadRoomSettings roomId (j_settings replies),
                r_createdAt = rr_created_at roomData\<rparr>)
   \<and> (error loadedParticipants \<noteq> None \<longrightarrow>
        loadParticipantsWithPresence loadedParticipants = [])
   \<and> (error loadedMessages \<noteq> None \<longrightarrow> loadRoomMessages loadedMessages = [])
   \<and> (error loadedSettings \<noteq> None \<longrightarrow>
        loadRoomSettings roomId loadedSettings =
          \<lparr>s_roomId = roomId, s_isAIMuted = False, s_aiMutedBy = None, s_aiMutedByName = None,
           s_aiMutedAt = None\<rparr>)
   \<and> (\<not> supabaseConfigured st \<or> user st = None \<or> error created \<noteq> None \<or>
        data created \<noteq> Some True \<longrightarrow>
        (\<exists>e. createRoom roomName newId now created st = (Inl e, st)))
   \<and> (supabaseConfigured st \<and> user st \<noteq> None \<and> error created = None \<and>
        data created = Some True \<longrightarrow> fst (createRoom roomName newId now created st) = Inr ())
   \<and> (user st \<noteq> None \<and> currentRoom st \<noteq> None \<and> supabaseConfigured st \<and>
        error inserted = Some e \<longrightarrow> fst (sendMessage tempId now content inserted st) = Inl e)
   \<and> fst (toggleAIMute toggled st) = Inr ()
   \<and> fst (snd (toggleAIMute toggled st)) = st
   \<and> (ConsoleError \<in> set (snd (snd (toggleAIMute toggled st))) \<longleftrightarrow>
        currentRoom st \<noteq> None \<and> user st \<noteq> None \<and> error toggled \<noteq> None)"
proof -
  have a: "\<not> supabaseConfigured st \<longrightarrow> joinRoom roomId replies st = (Inl notConfigured, st)"
    by (simp add: joinRoom_def)
  have s: "user st \<noteq> None \<and> currentRoom st \<noteq> None \<and> supabaseConfigured st \<and>
        error inserted = Some e \<longrightarrow> fst (sendMessage tempId now content inserted st) = Inl e"
    by (auto simp: sendMessage_def begin_Some sendMessage_finish_def Let_def)
  have j: "supabaseConfigured st \<and> user st \<noteq> None \<and> error (j_join replies) = None \<and>
        data (j_join replies) = Some True \<and> error (j_room replies) = None \<and>
        data (j_room replies) = Some roomData \<longrightarrow>
        fst (joinRoom roomId replies st) = Inr True \<and>
        currentRoom (snd (joinRoom roomId replies st)) =
          Some \<lparr>r_id = rr_id roomData, r_name = rr_name roomData,
                r_participants = loadParticipantsWithPresence (j_participants replies),
                r_messages = loadRoomMessages (j_messages replies),
                r_settings = loadRoomSettings roomId (j_settings replies),
                r_createdAt = rr_created_at roomData\<rparr>"
    using joinRoom_published [of st replies roomData roomId] by blast
  have l: "error loadedParticipants \<noteq> None \<longrightarrow>
        loadParticipantsWithPresence loadedParticipants = []"
    "error loadedMessages \<noteq> None \<longrightarrow> loadRoomMessages loadedMessages = []"
    "error loadedSettings \<noteq> None \<longrightarrow>
        loadRoomSettings roomId loadedSettings =
          \<lparr>s_roomId = roomId, s_isAIMuted = False, s_aiMutedBy = None, s_aiMutedByName = None,
           s_aiMutedAt = None\<rparr>"
    using loads_swallow by blast+
  have jf: "supabaseConfigured st \<and>
        (user st = None \<or> error (j_join replies) \<noteq> None \<or> data (j_join replies) \<noteq> Some True \<or>
         error (j_room replies) \<noteq> None \<or> data (j_room replies) = None) \<longrightarrow>
        joinRoom roomId replies st = (Inr False, st)"
    using joinRoom_failure [of st replies roomId] by blast
  have c: "\<not> supabaseConfigured st \<or> user st = None \<or> error created \<noteq> None \<or>
        data created \<noteq> Some True \<longrightarrow>
        (\<exists>e. createRoom roomName newId now created st = (Inl e, st))"
    "supabaseConfigured st \<and> user st \<noteq> None \<and> error created = None \<and>
        data created = Some True \<longrightarrow> fst (createRoom roomName newId now created st) = Inr ()"
    using createRoom_failure [of st created roomName newId now]
      createRoom_success [of st created roomName newId now] by blast+
  from a jf j l c s toggle_swallows [of toggled st] show ?thesis by blast
qed

theorem C8_failures_witness:
  "supabaseConfigured (exampleState False [msgA]) \<and>
   error (j_join joinRefused) \<noteq> None \<and>
   joinRoom ''room_2'' joinRefused (exampleState False [msgA]) =
     (Inr False, exampleState False [msgA]) \<and>
   supabaseConfigured signedInState \<and> user signedInState \<noteq> None \<and>
   error (j_join joinLoadsFailed) = None \<and> data (j_join joinLoadsFailed) = Some True \<and>
   error (j_room joinLoadsFailed) = None \<and>
   data (j_room joinLoadsFailed) =
     Some \<lparr>rr_id = ''room_1'', rr_name = ''Planning'', rr_created_at = 0\<rparr> \<and>
   error (j_participants joinLoadsFailed) \<noteq> None \<and>
   error (j_messages joinLoadsFailed) \<noteq> None \<and>
   error (j_settings joinLoadsFailed) \<noteq> None \<and>
   fst (joinRoom ''room_1'' joinLoadsFailed signedInState) = Inr True \<and>
   currentRoom (snd (joinRoom ''room_1'' joinLoadsFailed signedInState)) =
     Some (exampleRoom False []) \<and>
   error createRefused \<noteq> None \<and>
   (\<exists>e. createRoom ''Planning'' ''room_2'' 7 createRefused (exampleState False [msgA]) =
     (Inl e, exampleState False [msgA])) \<and>
   user (exampleState False [msgA]) \<noteq> None \<and> currentRoom (exampleState False [msgA]) \<noteq> None \<and>
   error insertFailed = Some (ErrorObject ''new row violates row-level security policy'') \<and>
   fst (sendMessage ''temp_1'' 7 ''hello'' insertFailed (exampleState False [msgA])) =
     Inl (ErrorObject ''new row violates row-level security policy'') \<and>
   error toggleFailed \<noteq> None \<and>
   fst (toggleAIMute toggleFailed (exampleState False [msgA])) = Inr () \<and>
   ConsoleError \<in> set (snd (snd (toggleAIMute toggleFailed (exampleState False [msgA]))))"
proof -
  have facts: "error (j_join joinRefused) \<noteq> None" "error createRefused \<noteq> None"
    "error insertFailed = Some (ErrorObject ''new row violates row-level security policy'')"
    "error toggleFailed \<noteq> None"
    by (simp_all add: joinRefused_def createRefused_def insertFailed_def toggleFailed_def)
  have u: "user signedInState \<noteq> None" by (simp add: signedIn_facts)
  have refused: "joinRoom ''room_2'' joinRefused (exampleState False [msgA]) =
       (Inr False, exampleState False [msgA])
     \<and> (\<exists>e. createRoom ''Planning'' ''room_2'' 7 createRefused (exampleState False [msgA]) =
         (Inl e, exampleState False [msgA]))
     \<and> fst (sendMessage ''temp_1'' 7 ''hello'' insertFailed (exampleState False [msgA])) =
         Inl (ErrorObject ''new row violates row-level security policy'')
     \<and> fst (toggleAIMute toggleFailed (exampleState False [msgA])) = Inr ()
     \<and> ConsoleError \<in> set (snd (snd (toggleAIMute toggleFailed (exampleState False [msgA]))))"
    using C8_failures [where st = "exampleState False [msgA]" and replies = joinRefused
        and roomId = "''room_2''" and created = createRefused and roomName = "''Planning''"
        and newId = "''room_2''" and now = 7 and inserted = insertFailed
        and e = "ErrorObject ''new row violates row-level security policy''"
        and tempId = "''temp_1''" and content = "''hello''" and toggled = toggleFailed]
      facts
    by (simp add: example_user example_room example_configured)
  have joined: "fst (joinRoom ''room_1'' joinLoadsFailed signedInState) = Inr True
     \<and> currentRoom (snd (joinRoom ''room_1'' joinLoadsFailed signedInState)) =
         Some (exampleRoom False [])"
    using C8_failures [where st = signedInState and replies = joinLoadsFailed
        and roomId = "''room_1''"
        and roomData = "\<lparr>rr_id = ''room_1'', rr_name = ''Planning'', rr_created_at = 0\<rparr>"
        and loadedParticipants = "j_participants joinLoadsFailed"
        and loadedMessages = "j_messages joinLoadsFailed"
        and loadedSettings = "j_settings joinLoadsFailed"]
      u signedIn_facts joinLoadsFailed_facts
    by (simp add: exampleRoom_def exampleSettings_def)
  show ?thesis
    using refused joined facts u signedIn_facts joinLoadsFailed_facts
    by (simp add: example_user example_room example_configured)
qed

end
